theory Spec2Isabelle
  imports Main
begin

section \<open>JavaScript strings\<close>

text \<open>
  A JavaScript string is a sequence of UTF-16 code units. The adapter's source compares,
  trims and pattern-matches code units, so a string is modelled as the list of its code
  units, each a natural number. \<open>js\<close> turns an ASCII literal into that form.
\<close>

type_synonym jsstring = "nat list"

definition js :: "string \<Rightarrow> jsstring" where
  "js = map of_char"

text \<open>
  The line terminators of ECMAScript: LF, CR, U+2028 and U+2029. The dot of a regular
  expression matches every code unit but these.
\<close>

definition line_terminator :: "nat \<Rightarrow> bool" where
  "line_terminator c = (c = 10 \<or> c = 13 \<or> c = 8232 \<or> c = 8233)"

text \<open>
  What \<open>String.prototype.trim\<close> strips: the white space code units (TAB, VT, FF, SP,
  NBSP, the byte order mark and the space separators of Unicode, category Zs) and the
  line terminators.
\<close>

definition white_space :: "nat \<Rightarrow> bool" where
  "white_space c =
     (c = 9 \<or> c = 11 \<or> c = 12 \<or> c = 32 \<or> c = 160 \<or> c = 5760 \<or>
      (8192 \<le> c \<and> c \<le> 8202) \<or> c = 8239 \<or> c = 8287 \<or> c = 12288 \<or> c = 65279 \<or>
      line_terminator c)"

definition trim :: "jsstring \<Rightarrow> jsstring" where
  "trim s = rev (dropWhile white_space (rev (dropWhile white_space s)))"

text \<open>\<open>text.split('\n')\<close>: the pieces between line feeds; never an empty array.\<close>

fun split_lf :: "jsstring \<Rightarrow> jsstring list" where
  "split_lf [] = [[]]"
| "split_lf (c # cs) =
     (if c = 10 then [] # split_lf cs
      else (case split_lf cs of [] \<Rightarrow> [[c]] | l # ls \<Rightarrow> (c # l) # ls))"

definition starts_with :: "jsstring \<Rightarrow> jsstring \<Rightarrow> bool" where
  "starts_with p s = (take (length p) s = p)"

definition ends_with :: "jsstring \<Rightarrow> jsstring \<Rightarrow> bool" where
  "ends_with q s = (length q \<le> length s \<and> drop (length s - length q) s = q)"

text \<open>
  \<open>s.indexOf(pat)\<close>: the index of the first occurrence of \<open>pat\<close> in \<open>s\<close>, or \<open>-1\<close>.
\<close>

fun indexOf_from :: "jsstring \<Rightarrow> jsstring \<Rightarrow> int \<Rightarrow> int" where
  "indexOf_from pat [] i = (if pat = [] then i else - 1)"
| "indexOf_from pat (c # cs) i =
     (if starts_with pat (c # cs) then i else indexOf_from pat cs (i + 1))"

definition indexOf :: "jsstring \<Rightarrow> jsstring \<Rightarrow> int" where
  "indexOf s pat = indexOf_from pat s 0"

section \<open>Numbers\<close>

text \<open>
  A JavaScript number is an IEEE double. The numbers of this adapter are line numbers
  and identifiers, so a number is modelled as the integer it is, and an addition or
  subtraction that can leave the integers a double represents exactly is rounded as
  the double is: \<open>to_double n\<close> is the double nearest to the integer \<open>n\<close>, a tie going to the
  even significand. Up to \<open>2^53\<close> in absolute value every integer is a double; beyond,
  the doubles are \<open>ulp\<close> apart. (Below \<open>2^1024\<close>, where a double overflows.)
\<close>

fun ulp :: "nat \<Rightarrow> nat" where
  "ulp m = (if m < 2 ^ 53 then 1 else 2 * ulp (m div 2))"

declare ulp.simps [simp del]

definition to_double :: "int \<Rightarrow> int" where
  "to_double n =
     (let m = nat \<bar>n\<bar>; q = ulp m; lo = (m div q) * q; r = m mod q;
          nearest = (if 2 * r < q then lo
                     else if q < 2 * r then lo + q
                     else if even (m div q) then lo else lo + q)
      in if n < 0 then - int nearest else int nearest)"

text \<open>
  The decimal form of an integer, as string concatenation with a number produces it
  (for the integers a line number can be: below \<open>10^21\<close> in absolute value).
\<close>

fun digits :: "nat \<Rightarrow> jsstring" where
  "digits n = (if n < 10 then [48 + n] else digits (n div 10) @ [48 + n mod 10])"

definition number_to_string :: "int \<Rightarrow> jsstring" where
  "number_to_string i = (if i < 0 then 45 # digits (nat (- i)) else digits (nat i))"

section \<open>Buffers\<close>

text \<open>
  A \<open>Buffer\<close> is a sequence of bytes, and \<open>buffer.toString()\<close> decodes it as UTF-8 on its
  own, whatever came before or comes after it on the socket. A byte or a truncated
  sequence that is not well-formed UTF-8 decodes to U+FFFD, one for each maximal
  ill-formed part; a code point beyond U+FFFF becomes a surrogate pair.

  \<open>decode_sequence\<close> reads the continuation bytes a lead byte needs, the first of them
  within the bounds the lead byte sets, and returns the code point with the number of
  bytes it took; where a byte is missing or is no continuation, it returns U+FFFD with
  the number of bytes read before that byte.
\<close>

type_synonym bytes = "nat list"


definition continuation :: "nat \<Rightarrow> nat \<Rightarrow> nat \<Rightarrow> bool" where
  "continuation lower upper b = (lower \<le> b \<and> b \<le> upper)"

definition decode_sequence :: "nat \<Rightarrow> nat \<Rightarrow> nat \<Rightarrow> nat \<Rightarrow> bytes \<Rightarrow> nat \<times> nat" where
  "decode_sequence needed lower upper lead rest =
     (case rest of
        [] \<Rightarrow> (65533, 1)
      | c1 # r1 \<Rightarrow>
          if \<not> continuation lower upper c1 then (65533, 1)
          else if needed = 1 then (lead * 64 + (c1 - 128), 2)
          else
            (case r1 of
               [] \<Rightarrow> (65533, 2)
             | c2 # r2 \<Rightarrow>
                 if \<not> continuation 128 191 c2 then (65533, 2)
                 else if needed = 2 then ((lead * 64 + (c1 - 128)) * 64 + (c2 - 128), 3)
                 else
                   (case r2 of
                      [] \<Rightarrow> (65533, 3)
                    | c3 # r3 \<Rightarrow>
                        if \<not> continuation 128 191 c3 then (65533, 3)
                        else
                          (((lead * 64 + (c1 - 128)) * 64 + (c2 - 128)) * 64 + (c3 - 128),
                           4))))"

definition decode_one :: "nat \<Rightarrow> bytes \<Rightarrow> nat \<times> nat" where
  "decode_one b rest =
     (if b < 128 then (b, 1)
      else if 194 \<le> b \<and> b \<le> 223 then decode_sequence 1 128 191 (b - 192) rest
      else if b = 224 then decode_sequence 2 160 191 (b - 224) rest
      else if b = 237 then decode_sequence 2 128 159 (b - 224) rest
      else if 225 \<le> b \<and> b \<le> 239 then decode_sequence 2 128 191 (b - 224) rest
      else if b = 240 then decode_sequence 3 144 191 (b - 240) rest
      else if b = 244 then decode_sequence 3 128 143 (b - 240) rest
      else if 241 \<le> b \<and> b \<le> 243 then decode_sequence 3 128 191 (b - 240) rest
      else (65533, 1))"

definition code_units :: "nat \<Rightarrow> jsstring" where
  "code_units cp =
     (if cp < 65536 then [cp]
      else [55296 + (cp - 65536) div 1024, 56320 + (cp - 65536) mod 1024])"

fun toString :: "bytes \<Rightarrow> jsstring" where
  "toString [] = []"
| "toString (b # rest) =
     (case decode_one b rest of (cp, n) \<Rightarrow> code_units cp @ toString (drop (n - 1) rest))"

section \<open>The regular expressions of the socket handler\<close>

text \<open>
  The handler tests each chunk against patterns of three shapes, none with the multiline
  flag, so \<open>^\<close> and \<open>$\<close> are the two ends of the chunk:
  \<^item> \<open>/^pre/\<close>, which is \<open>starts_with pre\<close>;
  \<^item> \<open>/suf$/\<close>, which is \<open>ends_with suf\<close>;
  \<^item> \<open>/^pre.*?suf$/\<close>: the chunk is \<open>pre\<close>, then code units none of which is a line
    terminator, then \<open>suf\<close>. The lazy quantifier changes which match is found first,
    not whether there is one.
\<close>

definition re_enclosed :: "jsstring \<Rightarrow> jsstring \<Rightarrow> jsstring \<Rightarrow> bool" where
  "re_enclosed pre suf chunk =
     (length pre + length suf \<le> length chunk \<and>
      starts_with pre chunk \<and> ends_with suf chunk \<and>
      list_all (\<lambda>c. \<not> line_terminator c)
        (take (length chunk - length pre - length suf) (drop (length pre) chunk)))"

section \<open>The session\<close>

text \<open>
  What the adapter does is kept as a trace, in the order of the calls: events and
  responses sent to the frontend, lines written to the backend socket, promises
  created and callbacks attached to them, and calls of the two promise resolvers. A
  resolver is called with the document that \<open>parser.parseFromString\<close> makes of a text;
  the trace keeps that text.
\<close>

datatype kind = Frames | Variables

record breakpoint =
  bp_id :: int
  verified :: bool
  line :: int

record stack_frame =
  frame_id :: int
  frame_name :: jsstring
  source_name :: jsstring
  source_path :: jsstring
  frame_line :: int
  frame_column :: int

datatype event = StoppedEvent jsstring int

datatype body =
    SetBreakpointsBody "breakpoint list"
  | StackTraceBody "stack_frame list"

text \<open>A response object is identified by the sequence number of its request.\<close>

type_synonym response = nat

text \<open>
  The callbacks attached by \<open>then\<close>: the one of \<open>stackTraceRequest\<close>, which holds the
  response to send, and the one of \<open>variablesRequest\<close>, which also holds the request's
  \<open>variablesReference\<close>.
\<close>

datatype reaction = StackTraceReaction response | VariablesReaction response int

datatype effect =
    SendEvent event
  | SendResponse response body
  | SocketWrite jsstring
  | NewPromise kind
  | PromiseThen kind reaction
  | PromiseResolve kind jsstring

text \<open>
  A promise with the callbacks attached to it. \<open>resolved_with\<close> is the text whose parse
  the promise was resolved with, if it has been resolved.
\<close>

record promise =
  resolved_with :: "jsstring option"
  reactions :: "reaction list"

text \<open>
  How a handler can fail: a \<open>TypeError\<close>, raised by reading a property of \<open>undefined\<close> or
  \<open>null\<close> or by an assignment that strict mode refuses, and a failure of \<open>readFileSync\<close>.
\<close>

datatype error = TypeError | FileError

text \<open>
  \<open>_breakPoints\<close> is a \<open>Map\<close> that the adapter uses as a plain object, one property for
  each path: \<open>breakPoints\<close> are its own properties. Its prototype is \<open>Map.prototype\<close>
  (\<open>None\<close>) until an assignment to \<open>__proto__\<close> makes an array of breakpoints its
  prototype.
\<close>

record session =
  clientLinesStartAt1 :: bool
  breakpointId :: int
  sourceFile :: jsstring
  sourceLines :: "jsstring list"
  breakPoints :: "jsstring \<rightharpoonup> breakpoint list"
  breakPoints_prototype :: "breakpoint list option"
  stackFrameLoaded :: promise
  variableLoaded :: promise
  buffer :: jsstring
  effects :: "effect list"

definition THREAD_ID :: int where
  "THREAD_ID = 1"

definition sendEvent :: "event \<Rightarrow> session \<Rightarrow> session" where
  "sendEvent e s = s\<lparr>effects := effects s @ [SendEvent e]\<rparr>"

definition sendResponse :: "response \<Rightarrow> body \<Rightarrow> session \<Rightarrow> session" where
  "sendResponse r b s = s\<lparr>effects := effects s @ [SendResponse r b]\<rparr>"

definition socket_write :: "jsstring \<Rightarrow> session \<Rightarrow> session" where
  "socket_write text s = s\<lparr>effects := effects s @ [SocketWrite text]\<rparr>"

text \<open>
  The line conversions of the debug adapter library. The constructor of the session
  sets the debugger's lines to start at 1, so only the client's convention varies. The
  sum and the difference are those of doubles.
\<close>

definition convertClientLineToDebugger :: "session \<Rightarrow> int \<Rightarrow> int" where
  "convertClientLineToDebugger s l = (if clientLinesStartAt1 s then l else to_double (l + 1))"

definition convertDebuggerLineToClient :: "session \<Rightarrow> int \<Rightarrow> int" where
  "convertDebuggerLineToClient s l = (if clientLinesStartAt1 s then l else to_double (l - 1))"

section \<open>setBreakPointsRequest\<close>

text \<open>
  The body of \<open>if (l < lines.length) { ... }\<close> for one requested line \<open>l\<close>, already in
  the debugger's numbering: the adjusted line and the verified flag. \<open>lines[l-1]\<close> is
  \<open>undefined\<close> when \<open>l - 1\<close> is negative, and \<open>undefined.trim()\<close> raises. (An array has
  fewer than \<open>2^32\<close> elements: for a line below its length, \<open>l - 1\<close>, \<open>l++\<close> and \<open>l--\<close> are
  exact, or \<open>l - 1\<close> is negative, rounded or not.)
\<close>

definition verify_location :: "jsstring list \<Rightarrow> int \<Rightarrow> error + (int \<times> bool)" where
  "verify_location lines l =
     (if l < int (length lines) then
        (if l - 1 < 0 then Inl TypeError
         else
           (let line = trim (lines ! nat (l - 1));
                l1 = (if length line = 0 \<or> indexOf line (js ''+'') = 0 then l + 1 else l);
                l2 = (if indexOf line (js ''-'') = 0 then l1 - 1 else l1);
                verified = (indexOf line (js ''lazy'') < 0)
            in Inr (l2, verified)))
      else Inr (l, False))"

text \<open>
  One turn of the loop up to the construction of the breakpoint: the requested client
  line is converted, checked against the file, and converted back.
\<close>

definition new_breakpoint :: "session \<Rightarrow> jsstring list \<Rightarrow> int \<Rightarrow> error + breakpoint" where
  "new_breakpoint s lines c =
     (case verify_location lines (convertClientLineToDebugger s c) of
        Inl e \<Rightarrow> Inl e
      | Inr (l, v) \<Rightarrow>
          Inr \<lparr>bp_id = breakpointId s, verified = v,
               line = convertDebuggerLineToClient s l\<rparr>)"

text \<open>\<open>["break", "test.rb:" + bp.line].join(" ") + "\n"\<close>\<close>

definition break_command :: "breakpoint \<Rightarrow> jsstring" where
  "break_command bp =
     js ''break'' @ js '' '' @ (js ''test.rb:'' @ number_to_string (line bp)) @ [10]"

text \<open>
  The loop over the requested lines. Each turn builds a breakpoint, takes the next
  identifier and writes the \<open>break\<close> command; a turn that raises leaves the session as the
  turns before it made it.
\<close>

fun verify_loop ::
  "jsstring list \<Rightarrow> int list \<Rightarrow> breakpoint list \<Rightarrow> session \<Rightarrow> session \<times> (error + breakpoint list)"
where
  "verify_loop lines [] breakpoints s = (s, Inr breakpoints)"
| "verify_loop lines (c # cs) breakpoints s =
     (case new_breakpoint s lines c of
        Inl e \<Rightarrow> (s, Inl e)
      | Inr bp \<Rightarrow>
          verify_loop lines cs (breakpoints @ [bp])
            (socket_write (break_command bp) (s\<lparr>breakpointId := breakpointId s + 1\<rparr>)))"

text \<open>
  \<open>this._breakPoints[path] = breakpoints\<close>, an assignment to a property of an object in
  strict mode. A path that is an own property is overwritten. Otherwise the prototype
  chain decides: \<open>__proto__\<close> is an accessor of \<open>Object.prototype\<close>, whose setter makes the
  array the prototype of the object and creates no property; \<open>size\<close> is an accessor of
  \<open>Map.prototype\<close> with no setter, and the assignment raises; every other name is
  inherited, if at all, as a writable data property, and the assignment creates the
  own property.
\<close>

definition store_breakPoints :: "jsstring \<Rightarrow> breakpoint list \<Rightarrow> session \<Rightarrow> error + session" where
  "store_breakPoints path breakpoints s =
     (if breakPoints s path \<noteq> None then
        Inr (s\<lparr>breakPoints := (breakPoints s)(path \<mapsto> breakpoints)\<rparr>)
      else if path = js ''__proto__'' then
        Inr (s\<lparr>breakPoints_prototype := Some breakpoints\<rparr>)
      else if path = js ''size'' \<and> breakPoints_prototype s = None then
        Inl TypeError
      else Inr (s\<lparr>breakPoints := (breakPoints s)(path \<mapsto> breakpoints)\<rparr>))"

text \<open>
  \<open>readFileSync\<close> is the file system: the decoded text of a path, or nothing where
  reading raises. A request that raises, in reading the file, in the loop or in the
  assignment, sends no response.
\<close>

definition setBreakPointsRequest ::
  "(jsstring \<rightharpoonup> jsstring) \<Rightarrow> response \<Rightarrow> jsstring \<Rightarrow> int list \<Rightarrow> session \<Rightarrow> session \<times> error option"
where
  "setBreakPointsRequest readFileSync response path clientLines s =
     (case readFileSync path of
        None \<Rightarrow> (s, Some FileError)
      | Some text \<Rightarrow>
          (case verify_loop (split_lf text) clientLines [] s of
             (s1, Inl e) \<Rightarrow> (s1, Some e)
           | (s1, Inr breakpoints) \<Rightarrow>
               (case store_breakPoints path breakpoints s1 of
                  Inl e \<Rightarrow> (s1, Some e)
                | Inr s2 \<Rightarrow>
                    (sendResponse response (SetBreakpointsBody breakpoints) s2, None))))"

text \<open>
  The fields as \<open>launchRequest\<close> leaves them: the program's lines cached, an empty
  buffer, two pending promises nobody waits on. (Starting the backend process and
  the socket is not part of the model.)
\<close>

definition pending :: promise where
  "pending = \<lparr>resolved_with = None, reactions = []\<rparr>"

definition launched :: "bool \<Rightarrow> jsstring \<Rightarrow> jsstring \<Rightarrow> session" where
  "launched linesStartAt1 program text =
     \<lparr>clientLinesStartAt1 = linesStartAt1, breakpointId = 1000, sourceFile = program,
      sourceLines = split_lf text, breakPoints = Map.empty, breakPoints_prototype = None,
      stackFrameLoaded = pending, variableLoaded = pending,
      buffer = [], effects = []\<rparr>"

section \<open>The socket's data handler\<close>

text \<open>
  Calling a resolver settles its promise if it is still pending, and does nothing to a
  settled one; either way the call is recorded in the trace. The callbacks attached to
  the promise run afterwards, as jobs of their own: \<open>stackTraceCallback\<close> below is the
  callback of a stack trace.
\<close>

definition resolve_promise :: "jsstring \<Rightarrow> promise \<Rightarrow> promise" where
  "resolve_promise text p =
     (case resolved_with p of None \<Rightarrow> p\<lparr>resolved_with := Some text\<rparr> | Some _ \<Rightarrow> p)"

definition stackFrameLoadedPromiseResolve :: "jsstring \<Rightarrow> session \<Rightarrow> session" where
  "stackFrameLoadedPromiseResolve text s =
     s\<lparr>stackFrameLoaded := resolve_promise text (stackFrameLoaded s),
       effects := effects s @ [PromiseResolve Frames text]\<rparr>"

definition variableLoadedPromiseResolve :: "jsstring \<Rightarrow> session \<Rightarrow> session" where
  "variableLoadedPromiseResolve text s =
     s\<lparr>variableLoaded := resolve_promise text (variableLoaded s),
       effects := effects s @ [PromiseResolve Variables text]\<rparr>"

text \<open>
  The handler of the socket's \<open>data\<close> event from its second statement on, branch for
  branch; \<open>chunk\<close> is the decoded text of the buffer received. (The two \<open>console.log\<close>
  calls of the variables branch are left out of the trace.)
\<close>

definition onData :: "jsstring \<Rightarrow> session \<Rightarrow> session" where
  "onData chunk s =
     (if re_enclosed (js ''<breakpoint '') (js ''/>'') chunk then
        sendEvent (StoppedEvent (js ''breakpoint'') THREAD_ID) s
      else if re_enclosed (js ''<suspended '') (js ''/>'') chunk then
        sendEvent (StoppedEvent (js ''step'') THREAD_ID) s
      else if
        (starts_with (js ''<frames>'') chunk \<and> \<not> ends_with (js ''</frames>'') chunk) \<or>
        (re_enclosed (js ''<frame '') (js ''/>'') chunk \<and> buffer s \<noteq> []) \<or>
        (starts_with (js ''<variables>'') chunk \<and> \<not> ends_with (js ''</variables>'') chunk) \<or>
        (re_enclosed (js ''<variable '') (js ''/>'') chunk \<and> buffer s \<noteq> []) \<or>
        (starts_with (js ''<breakpoints>'') chunk \<and> \<not> ends_with (js ''</breakpoints>'') chunk) \<or>
        (re_enclosed (js ''<breakpoint '') (js ''/>'') chunk \<and> buffer s \<noteq> [])
      then s\<lparr>buffer := buffer s @ chunk\<rparr>
      else if
        (re_enclosed (js ''<variable '') (js ''>'') chunk \<and> \<not> ends_with (js ''</variables>'') chunk) \<or>
        ends_with (js ''</variable>'') chunk
      then s\<lparr>buffer := buffer s @ chunk\<rparr>
      else if
        ends_with (js ''</frames>'') chunk \<or>
        ends_with (js ''</variables>'') chunk \<or>
        ends_with (js ''</breakpoints>'') chunk
      then
        (let s1 = s\<lparr>buffer := buffer s @ chunk\<rparr>;
             s2 = (if ends_with (js ''</frames>'') chunk then
                     stackFrameLoadedPromiseResolve (buffer s1) s1
                   else if ends_with (js ''</variables>'') chunk then
                     variableLoadedPromiseResolve (buffer s1) s1
                   else s1)
         in s2\<lparr>buffer := []\<rparr>)
      else s)"

text \<open>The handler run on the chunks of a stream, one \<open>data\<close> event after the other.\<close>

fun onData_all :: "jsstring list \<Rightarrow> session \<Rightarrow> session" where
  "onData_all [] s = s"
| "onData_all (chunk # chunks) s = onData_all chunks (onData chunk s)"



text \<open>The resolver calls of a trace, in order: which promise, with which text.\<close>

fun resolver_calls :: "effect list \<Rightarrow> (kind \<times> jsstring) list" where
  "resolver_calls [] = []"
| "resolver_calls (PromiseResolve k text # es) = (k, text) # resolver_calls es"
| "resolver_calls (e # es) = resolver_calls es"

text \<open>A chunk that is, whole, a self-closed \<open>breakpoint\<close> or \<open>suspended\<close> element.\<close>

definition self_closed_event :: "jsstring \<Rightarrow> bool" where
  "self_closed_event chunk =
     (re_enclosed (js ''<breakpoint '') (js ''/>'') chunk \<or>
      re_enclosed (js ''<suspended '') (js ''/>'') chunk)"

subsection \<open>Documents and the fragmentations the handler reassembles\<close>







section \<open>stackTraceRequest and variablesRequest\<close>

text \<open>
  \<open>this.stackFrameLoaded = new Promise(resolve => { this.stackFrameLoadedPromiseResolve = resolve; })\<close>:
  the field holds a new pending promise, and the resolver field the resolver of that
  promise. \<open>then\<close> attaches the callback that will answer the request.
\<close>

definition new_stackFrameLoaded :: "session \<Rightarrow> session" where
  "new_stackFrameLoaded s =
     s\<lparr>stackFrameLoaded := pending, effects := effects s @ [NewPromise Frames]\<rparr>"

definition stackFrameLoaded_then :: "reaction \<Rightarrow> session \<Rightarrow> session" where
  "stackFrameLoaded_then f s =
     s\<lparr>stackFrameLoaded :=
         (stackFrameLoaded s)\<lparr>reactions := reactions (stackFrameLoaded s) @ [f]\<rparr>,
       effects := effects s @ [PromiseThen Frames f]\<rparr>"

definition new_variableLoaded :: "session \<Rightarrow> session" where
  "new_variableLoaded s =
     s\<lparr>variableLoaded := pending, effects := effects s @ [NewPromise Variables]\<rparr>"

definition variableLoaded_then :: "reaction \<Rightarrow> session \<Rightarrow> session" where
  "variableLoaded_then f s =
     s\<lparr>variableLoaded :=
         (variableLoaded s)\<lparr>reactions := reactions (variableLoaded s) @ [f]\<rparr>,
       effects := effects s @ [PromiseThen Variables f]\<rparr>"

definition stackTraceRequest :: "response \<Rightarrow> session \<Rightarrow> session" where
  "stackTraceRequest response s =
     (let s1 = new_stackFrameLoaded s;
          s2 = stackFrameLoaded_then (StackTraceReaction response) s1
      in socket_write (js ''where'' @ [10]) s2)"

definition variablesRequest :: "response \<Rightarrow> int \<Rightarrow> session \<Rightarrow> session" where
  "variablesRequest response variablesReference s =
     (let s1 = new_variableLoaded s;
          s2 = variableLoaded_then (VariablesReaction response variablesReference) s1
      in socket_write (js ''var local'' @ [10]) s2)"

text \<open>
  A promise is waited on when it is pending and a callback is attached to it.
\<close>

definition waited_on :: "promise \<Rightarrow> bool" where
  "waited_on p = (resolved_with p = None \<and> reactions p \<noteq> [])"

subsection \<open>The callback of the stack trace\<close>

text \<open>
  A parsed document, as far as the callback reads it: elements with a name, attributes
  (a \<open>NamedNodeMap\<close>, so each name at most once) and children; any other node (text,
  comment) has no attributes, and asking it for one raises.
\<close>

datatype node =
    Element jsstring "(jsstring \<times> jsstring) list" "node list"
  | CharacterData

record xml_document =
  documentElement :: "node option"

fun nodeName :: "node \<Rightarrow> jsstring" where
  "nodeName (Element name as cs) = name"
| "nodeName CharacterData = js ''#text''"

fun childNodes :: "node \<Rightarrow> node list" where
  "childNodes (Element name as cs) = cs"
| "childNodes CharacterData = []"

text \<open>
  \<open>basename\<close> of Node's \<open>path\<close> module, in its POSIX form: trailing slashes are dropped,
  and what follows the last remaining slash is the base name.
\<close>

definition basename :: "jsstring \<Rightarrow> jsstring" where
  "basename p = rev (takeWhile (\<lambda>c. c \<noteq> 47) (dropWhile (\<lambda>c. c = 47) (rev p)))"

text \<open>
  The loop over the child nodes, with its index \<open>i\<close>. \<open>break\<close> ends the loop with the
  frames collected so far. Reading \<open>.value\<close> of a missing attribute raises, and so
  does \<open>.trim()\<close> of a source line that is not there.

  \<open>+line.value\<close> is the language's conversion of a string to a number. It is the
  parameter \<open>toNumber\<close>: \<open>Some n\<close> where the number is the integer \<open>n\<close>, \<open>None\<close> where it is
  a fraction, \<open>NaN\<close> or an infinity. Such a number, less one or two, is no index of an
  array, so the source line is \<open>undefined\<close>. (An array has fewer than \<open>2^32\<close> elements,
  so within its bounds \<open>l - 1\<close> is exact.)
\<close>

fun translate_frames ::
  "(jsstring \<Rightarrow> int option) \<Rightarrow> session \<Rightarrow> node list \<Rightarrow> int \<Rightarrow> stack_frame list \<Rightarrow>
     error + stack_frame list"
where
  "translate_frames toNumber s [] i frames = Inr frames"
| "translate_frames toNumber s (CharacterData # rest) i frames = Inl TypeError"
| "translate_frames toNumber s (Element name attributes children # rest) i frames =
     (case map_of attributes (js ''file'') of
        None \<Rightarrow> Inl TypeError
      | Some file \<Rightarrow>
          (let bn = basename file in
           if bn = js ''ruby-debug-ide.rb'' \<or> bn = js ''rdebug-ide'' then Inr frames
           else
             (case map_of attributes (js ''line'') of
                None \<Rightarrow> Inl TypeError
              | Some line_value \<Rightarrow>
                  (case toNumber line_value of
                     None \<Rightarrow> Inl TypeError
                   | Some n \<Rightarrow>
                       (let l = convertDebuggerLineToClient s n in
                        if 0 \<le> l - 1 \<and> l - 1 < int (length (sourceLines s)) then
                          translate_frames toNumber s rest (i + 1)
                            (frames @
                             [\<lparr>frame_id = i,
                               frame_name = trim (sourceLines s ! nat (l - 1)),
                               source_name = basename (sourceFile s),
                               source_path = sourceFile s,
                               frame_line = l,
                               frame_column = 0\<rparr>])
                        else Inl TypeError)))))"

text \<open>
  The callback attached by \<open>stackTraceRequest\<close>, run with the document the promise was
  resolved with. A document with another root is ignored without a response.
  (\<open>source_path\<close> is the path handed to \<open>convertDebuggerPathToClient\<close>.)
\<close>

definition stackTraceCallback ::
  "(jsstring \<Rightarrow> int option) \<Rightarrow> response \<Rightarrow> xml_document \<Rightarrow> session \<Rightarrow> session \<times> error option"
where
  "stackTraceCallback toNumber response xml s =
     (case documentElement xml of
        None \<Rightarrow> (s, Some TypeError)
      | Some root \<Rightarrow>
          if nodeName root \<noteq> js ''frames'' then (s, None)
          else
            (case translate_frames toNumber s (childNodes root) 0 [] of
               Inl e \<Rightarrow> (s, Some e)
             | Inr frames \<Rightarrow> (sendResponse response (StackTraceBody frames) s, None)))"

section \<open>Facts about strings\<close>

lemmas string_defs =
  js_def trim_def white_space_def line_terminator_def indexOf_def starts_with_def ends_with_def

text \<open>
  \<open>indexOf\<close> is negative exactly when the pattern does not occur in the string.
\<close>

lemma indexOf_from_substring:
  "0 \<le> i \<Longrightarrow> (indexOf_from pat s i < 0) = (\<not> (\<exists>xs ys. s = xs @ pat @ ys))"
proof (induction s arbitrary: i)
  case Nil
  then show ?case by auto
next
  case (Cons c cs)
  show ?case
  proof (cases "starts_with pat (c # cs)")
    case True
    then have "c # cs = [] @ pat @ drop (length pat) (c # cs)"
      by (simp add: starts_with_def) (metis append_take_drop_id)
    then have "\<exists>xs ys. c # cs = xs @ pat @ ys" by blast
    with True Cons.prems show ?thesis by simp
  next
    case False
    have "(\<exists>xs ys. c # cs = xs @ pat @ ys) = (\<exists>xs ys. cs = xs @ pat @ ys)"
    proof
      assume "\<exists>xs ys. c # cs = xs @ pat @ ys"
      then obtain xs ys where d: "c # cs = xs @ pat @ ys" by blast
      have "xs \<noteq> []"
      proof
        assume "xs = []"
        with d have "starts_with pat (c # cs)" by (simp add: starts_with_def)
        with False show False by simp
      qed
      then obtain x xs' where "xs = x # xs'" by (cases xs) auto
      with d have "cs = xs' @ pat @ ys" by simp
      then show "\<exists>xs ys. cs = xs @ pat @ ys" by blast
    next
      assume "\<exists>xs ys. cs = xs @ pat @ ys"
      then obtain xs ys where "cs = xs @ pat @ ys" by blast
      then have "c # cs = (c # xs) @ pat @ ys" by simp
      then show "\<exists>xs ys. c # cs = xs @ pat @ ys" by blast
    qed
    with False Cons.IH [of "i + 1"] Cons.prems show ?thesis by simp
  qed
qed

lemma indexOf_substring: "(indexOf s pat < 0) = (\<not> (\<exists>xs ys. s = xs @ pat @ ys))"
  by (simp add: indexOf_def indexOf_from_substring)












section \<open>Facts about numbers and buffers\<close>

text \<open>Up to \<open>2^53\<close> in absolute value an integer is its own double.\<close>

lemma ulp_small: "m < 2 ^ 53 \<Longrightarrow> ulp m = 1"
  by (simp add: ulp.simps)

lemma to_double_exact: "\<bar>n\<bar> \<le> 2 ^ 53 \<Longrightarrow> to_double n = n"
proof (cases "nat \<bar>n\<bar> < 2 ^ 53")
  case True
  then show ?thesis by (auto simp: to_double_def ulp_small Let_def)
next
  case False
  assume "\<bar>n\<bar> \<le> 2 ^ 53"
  with False have m: "nat \<bar>n\<bar> = 2 ^ 53" by simp
  have "ulp (2 ^ 53) = 2" by (simp add: ulp.simps)
  with m have "to_double n = (if n < 0 then - (2 ^ 53) else 2 ^ 53)"
    by (simp add: to_double_def Let_def)
  with m show ?thesis by (auto split: if_splits)
qed

text \<open>\<open>2^53 + 1\<close> lies halfway between two doubles and is rounded down to \<open>2^53\<close>.\<close>

lemma ulp_above: "ulp 9007199254740993 = 2"
  by (simp add: ulp.simps)

lemma to_double_above: "to_double 9007199254740993 = 9007199254740992"
  by (simp add: to_double_def ulp_above)


lemma toString_append_ascii:
  "list_all (\<lambda>b. b < 128) xs \<Longrightarrow> toString (xs @ ys) = xs @ toString ys"
  by (induction xs) (simp_all add: decode_one_def code_units_def)

lemma toString_ascii: "list_all (\<lambda>b. b < 128) bs \<Longrightarrow> toString bs = bs"
  using toString_append_ascii [of bs "[]"] by simp

section \<open>Breakpoint verification\<close>

lemmas request_defs =
  setBreakPointsRequest_def store_breakPoints_def new_breakpoint_def verify_location_def
  sendResponse_def socket_write_def convertClientLineToDebugger_def
  convertDebuggerLineToClient_def

text \<open>
  What a loop that ends without raising has done: one breakpoint for each requested
  line, with consecutive identifiers, and one \<open>break\<close> command for each of them.
\<close>

lemma new_breakpoint_Inr:
  "new_breakpoint s lines c = Inr bp \<Longrightarrow>
     \<exists>l v. verify_location lines (convertClientLineToDebugger s c) = Inr (l, v) \<and>
       bp = \<lparr>bp_id = breakpointId s, verified = v, line = convertDebuggerLineToClient s l\<rparr>"
  by (auto simp: new_breakpoint_def split: sum.splits)

lemma verify_loop_Inr:
  "verify_loop lines cs bps s = (s', Inr out) \<Longrightarrow>
     \<exists>new. out = bps @ new \<and> length new = length cs \<and>
       (\<forall>i<length cs. \<exists>l v.
          verify_location lines (convertClientLineToDebugger s (cs ! i)) = Inr (l, v) \<and>
          new ! i = \<lparr>bp_id = breakpointId s + int i, verified = v,
                      line = convertDebuggerLineToClient s l\<rparr>) \<and>
       s' = s\<lparr>breakpointId := breakpointId s + int (length cs),
              effects := effects s @ map (\<lambda>b. SocketWrite (break_command b)) new\<rparr>"
proof (induction cs arbitrary: bps s)
  case Nil
  then show ?case by simp
next
  case (Cons c cs)
  from Cons.prems obtain bp where bp: "new_breakpoint s lines c = Inr bp"
    by (auto split: sum.splits)
  let ?s2 = "socket_write (break_command bp) (s\<lparr>breakpointId := breakpointId s + 1\<rparr>)"
  from Cons.prems bp have run: "verify_loop lines cs (bps @ [bp]) ?s2 = (s', Inr out)"
    by simp
  from Cons.IH [OF run] obtain new where
    out: "out = (bps @ [bp]) @ new" and len: "length new = length cs"
    and each: "\<forall>i<length cs. \<exists>l v.
          verify_location lines (convertClientLineToDebugger ?s2 (cs ! i)) = Inr (l, v) \<and>
          new ! i = \<lparr>bp_id = breakpointId ?s2 + int i, verified = v,
                      line = convertDebuggerLineToClient ?s2 l\<rparr>"
    and s': "s' = ?s2\<lparr>breakpointId := breakpointId ?s2 + int (length cs),
              effects := effects ?s2 @ map (\<lambda>b. SocketWrite (break_command b)) new\<rparr>"
    by blast
  have conv: "convertClientLineToDebugger ?s2 = convertClientLineToDebugger s"
     "convertDebuggerLineToClient ?s2 = convertDebuggerLineToClient s"
     "breakpointId ?s2 = breakpointId s + 1"
    by (auto simp: convertClientLineToDebugger_def convertDebuggerLineToClient_def socket_write_def)
  from new_breakpoint_Inr [OF bp] obtain l v where
    first: "verify_location lines (convertClientLineToDebugger s c) = Inr (l, v)"
      "bp = \<lparr>bp_id = breakpointId s, verified = v, line = convertDebuggerLineToClient s l\<rparr>"
    by blast
  have "\<forall>i<length (c # cs). \<exists>l v.
          verify_location lines (convertClientLineToDebugger s ((c # cs) ! i)) = Inr (l, v) \<and>
          (bp # new) ! i = \<lparr>bp_id = breakpointId s + int i, verified = v,
                      line = convertDebuggerLineToClient s l\<rparr>"
  proof (intro allI impI)
    fix i assume i: "i < length (c # cs)"
    show "\<exists>l v.
          verify_location lines (convertClientLineToDebugger s ((c # cs) ! i)) = Inr (l, v) \<and>
          (bp # new) ! i = \<lparr>bp_id = breakpointId s + int i, verified = v,
                      line = convertDebuggerLineToClient s l\<rparr>"
    proof (cases i)
      case 0
      with first show ?thesis by simp
    next
      case (Suc j)
      with i have "j < length cs" by simp
      with each conv Suc show ?thesis by (simp add: algebra_simps)
    qed
  qed
  moreover have "out = bps @ (bp # new)" using out by simp
  moreover have "length (bp # new) = length (c # cs)" using len by simp
  moreover have "s' = s\<lparr>breakpointId := breakpointId s + int (length (c # cs)),
              effects := effects s @ map (\<lambda>b. SocketWrite (break_command b)) (bp # new)\<rparr>"
    using s' by (simp add: socket_write_def algebra_simps)
  ultimately show ?case by blast
qed

lemma verify_loop_breakPoints:
  "verify_loop lines cs bps s = (s', res) \<Longrightarrow>
     breakPoints s' = breakPoints s \<and> breakPoints_prototype s' = breakPoints_prototype s"
  by (induction cs arbitrary: bps s) (auto simp: socket_write_def split: sum.splits)

text \<open>The assignment changes the stored breakpoints at most, and of no other path.\<close>

lemma store_breakPoints_Inr:
  assumes "store_breakPoints path bps s = Inr s2"
  shows "effects s2 = effects s" and "breakpointId s2 = breakpointId s"
    and "p \<noteq> path \<Longrightarrow> breakPoints s2 p = breakPoints s p"
  using assms by (auto simp: store_breakPoints_def split: if_splits)

lemma store_breakPoints_own:
  assumes "path \<noteq> js ''size''" and "path \<noteq> js ''__proto__''"
  shows "store_breakPoints path bps s = Inr (s\<lparr>breakPoints := (breakPoints s)(path \<mapsto> bps)\<rparr>)"
  using assms by (simp add: store_breakPoints_def)

lemma store_breakPoints_answers:
  assumes "path \<noteq> js ''size''"
  shows "\<exists>s2. store_breakPoints path bps s = Inr s2"
  using assms by (simp add: store_breakPoints_def)

lemma setBreakPointsRequest_None:
  assumes "setBreakPointsRequest rf r path cls s = (s', None)"
  shows "\<exists>contents bps s2. rf path = Some contents \<and> length bps = length cls \<and>
       (\<forall>i<length cls. \<exists>l v.
          verify_location (split_lf contents) (convertClientLineToDebugger s (cls ! i)) = Inr (l, v) \<and>
          bps ! i = \<lparr>bp_id = breakpointId s + int i, verified = v,
                      line = convertDebuggerLineToClient s l\<rparr>) \<and>
       store_breakPoints path bps
         (s\<lparr>breakpointId := breakpointId s + int (length cls),
            effects := effects s @ map (\<lambda>b. SocketWrite (break_command b)) bps\<rparr>) = Inr s2 \<and>
       s' = sendResponse r (SetBreakpointsBody bps) s2 \<and>
       effects s' = effects s @ map (\<lambda>b. SocketWrite (break_command b)) bps @
                 [SendResponse r (SetBreakpointsBody bps)] \<and>
       last (effects s') = SendResponse r (SetBreakpointsBody bps)"
proof -
  from assms obtain contents where rf: "rf path = Some contents"
    by (auto simp: setBreakPointsRequest_def split: option.splits)
  from assms rf obtain s1 bps s2 where
    loop: "verify_loop (split_lf contents) cls [] s = (s1, Inr bps)"
    and store: "store_breakPoints path bps s1 = Inr s2"
    and s': "s' = sendResponse r (SetBreakpointsBody bps) s2"
    by (auto simp: setBreakPointsRequest_def split: prod.splits sum.splits)
  from verify_loop_Inr [OF loop] have
    len: "length bps = length cls"
    and each: "\<forall>i<length cls. \<exists>l v.
          verify_location (split_lf contents) (convertClientLineToDebugger s (cls ! i)) = Inr (l, v) \<and>
          bps ! i = \<lparr>bp_id = breakpointId s + int i, verified = v,
                      line = convertDebuggerLineToClient s l\<rparr>"
    and s1: "s1 = s\<lparr>breakpointId := breakpointId s + int (length cls),
              effects := effects s @ map (\<lambda>b. SocketWrite (break_command b)) bps\<rparr>"
    by auto
  have eff: "effects s' = effects s @ map (\<lambda>b. SocketWrite (break_command b)) bps @
                 [SendResponse r (SetBreakpointsBody bps)]"
    using store_breakPoints_Inr(1) [OF store] s' s1 by (simp add: sendResponse_def)
  then have "last (effects s') = SendResponse r (SetBreakpointsBody bps)"
    by simp
  with rf len each store s' s1 eff show ?thesis by blast
qed

text \<open>
  The request is answered whenever the file can be read, no requested line converts
  to a line below 1 and the path is not \<open>size\<close>.
\<close>

lemma verify_location_total:
  "1 \<le> l \<Longrightarrow> \<exists>l' v. verify_location lines l = Inr (l', v)"
  by (auto simp: verify_location_def Let_def)

lemma new_breakpoint_total:
  assumes "1 \<le> convertClientLineToDebugger s c"
  shows "\<exists>bp. new_breakpoint s lines c = Inr bp"
proof -
  from verify_location_total [OF assms] obtain l' v where
    "verify_location lines (convertClientLineToDebugger s c) = Inr (l', v)" by blast
  then show ?thesis by (simp add: new_breakpoint_def)
qed

lemma verify_loop_total:
  "\<forall>c\<in>set cs. 1 \<le> convertClientLineToDebugger s c \<Longrightarrow>
     \<exists>s' out. verify_loop lines cs bps s = (s', Inr out)"
proof (induction cs arbitrary: bps s)
  case Nil
  then show ?case by simp
next
  case (Cons c cs)
  then obtain bp where bp: "new_breakpoint s lines c = Inr bp"
    using new_breakpoint_total [of s c lines] by auto
  let ?s2 = "socket_write (break_command bp) (s\<lparr>breakpointId := breakpointId s + 1\<rparr>)"
  have "convertClientLineToDebugger ?s2 = convertClientLineToDebugger s"
    by (auto simp: convertClientLineToDebugger_def socket_write_def)
  with Cons.prems have "\<forall>c\<in>set cs. 1 \<le> convertClientLineToDebugger ?s2 c" by simp
  from Cons.IH [OF this] bp show ?case by simp
qed

lemma setBreakPointsRequest_total:
  assumes "rf path = Some contents" and "\<forall>c\<in>set cls. 1 \<le> convertClientLineToDebugger s c"
    and "path \<noteq> js ''size''"
  shows "snd (setBreakPointsRequest rf r path cls s) = None"
proof -
  from verify_loop_total [OF assms(2), of "split_lf contents" "[]"] obtain s1 bps where
    loop: "verify_loop (split_lf contents) cls [] s = (s1, Inr bps)" by blast
  from store_breakPoints_answers [OF assms(3), of bps s1] obtain s2 where
    "store_breakPoints path bps s1 = Inr s2" by blast
  with loop assms(1) show ?thesis by (simp add: setBreakPointsRequest_def)
qed

text \<open>
  Claim C2. With the source lines \<open>a\<close>, the empty line, \<open>+b\<close>, \<open>-c\<close> and
  \<open>lazy_var = 1\<close>, and a client whose lines start at 1, a request for the lines 2, 3, 4
  and 5 is answered with breakpoints at the lines 3, 4, 3 and 5; the first three are
  verified and the last is not. (The file is any file but one named \<open>size\<close>, for which
  the assignment that follows the loop raises.)
\<close>

theorem setBreakPoints_example:
  assumes "clientLinesStartAt1 s"
    and "readFileSync path = Some contents"
    and "split_lf contents = [js ''a'', [], js ''+b'', js ''-c'', js ''lazy_var = 1'']"
    and "path \<noteq> js ''size''"
  shows "\<exists>s'. setBreakPointsRequest readFileSync response path [2, 3, 4, 5] s = (s', None) \<and>
     last (effects s') = SendResponse response (SetBreakpointsBody
        [\<lparr>bp_id = breakpointId s, verified = True, line = 3\<rparr>,
         \<lparr>bp_id = breakpointId s + 1, verified = True, line = 4\<rparr>,
         \<lparr>bp_id = breakpointId s + 2, verified = True, line = 3\<rparr>,
         \<lparr>bp_id = breakpointId s + 3, verified = False, line = 5\<rparr>])"
  using assms by (simp add: request_defs string_defs)

theorem setBreakPoints_example_witness:
  "\<exists>s'. setBreakPointsRequest
          [js ''/w/test.rb'' \<mapsto> js ''a\<newline>\<newline>+b\<newline>-c\<newline>lazy_var = 1'']
          7 (js ''/w/test.rb'') [2, 3, 4, 5]
          (launched True (js ''/w/test.rb'') (js ''a\<newline>\<newline>+b\<newline>-c\<newline>lazy_var = 1'')) = (s', None) \<and>
     last (effects s') = SendResponse 7 (SetBreakpointsBody
        [\<lparr>bp_id = 1000, verified = True, line = 3\<rparr>,
         \<lparr>bp_id = 1001, verified = True, line = 4\<rparr>,
         \<lparr>bp_id = 1002, verified = True, line = 3\<rparr>,
         \<lparr>bp_id = 1003, verified = False, line = 5\<rparr>])"
proof -
  let ?text = "js ''a\<newline>\<newline>+b\<newline>-c\<newline>lazy_var = 1''"
  let ?s = "launched True (js ''/w/test.rb'') ?text"
  have lines1: "clientLinesStartAt1 ?s"
    by (simp add: launched_def)
  have content: "[js ''/w/test.rb'' \<mapsto> ?text] (js ''/w/test.rb'') = Some ?text"
    by simp
  have split: "split_lf ?text = [js ''a'', [], js ''+b'', js ''-c'', js ''lazy_var = 1'']"
    by (simp add: js_def)
  have name: "js ''/w/test.rb'' \<noteq> js ''size''"
    by (simp add: js_def)
  show ?thesis
    using setBreakPoints_example [where s = "?s" and contents = "?text"
        and path = "js ''/w/test.rb''" and readFileSync = "[js ''/w/test.rb'' \<mapsto> ?text]"
        and response = "7", OF lines1 content split name]
    by (simp add: launched_def)
qed

text \<open>
  Claim C3, as the code has it. For a requested line within bounds, the breakpoint
  returned is verified if and only if the trimmed text of the \<^emph>\<open>requested\<close> line, the
  line before any adjustment, does not contain \<open>lazy\<close>.
\<close>

theorem verified_iff_requested_line_not_lazy:
  assumes "setBreakPointsRequest readFileSync response path clientLines s = (s', None)"
    and "readFileSync path = Some contents"
    and "i < length clientLines"
    and "convertClientLineToDebugger s (clientLines ! i) < int (length (split_lf contents))"
  shows "\<exists>bps. last (effects s') = SendResponse response (SetBreakpointsBody bps) \<and>
     length bps = length clientLines \<and>
     verified (bps ! i) =
       (\<not> (\<exists>xs ys. trim (split_lf contents ! nat (convertClientLineToDebugger s (clientLines ! i) - 1))
                        = xs @ js ''lazy'' @ ys))"
proof -
  from setBreakPointsRequest_None [OF assms(1)] assms(2) obtain bps where
    len: "length bps = length clientLines"
    and each: "\<forall>i<length clientLines. \<exists>l v.
          verify_location (split_lf contents) (convertClientLineToDebugger s (clientLines ! i)) = Inr (l, v) \<and>
          bps ! i = \<lparr>bp_id = breakpointId s + int i, verified = v,
                      line = convertDebuggerLineToClient s l\<rparr>"
    and last: "last (effects s') = SendResponse response (SetBreakpointsBody bps)"
    by auto
  from each assms(3) obtain l v where
    loc: "verify_location (split_lf contents) (convertClientLineToDebugger s (clientLines ! i)) = Inr (l, v)"
    and bp: "bps ! i = \<lparr>bp_id = breakpointId s + int i, verified = v,
                      line = convertDebuggerLineToClient s l\<rparr>"
    by blast
  from loc assms(4) have
    "v = (indexOf (trim (split_lf contents ! nat (convertClientLineToDebugger s (clientLines ! i) - 1)))
            (js ''lazy'') < 0)"
    by (auto simp: verify_location_def Let_def split: if_splits)
  with bp have "verified (bps ! i) =
       (\<not> (\<exists>xs ys. trim (split_lf contents ! nat (convertClientLineToDebugger s (clientLines ! i) - 1))
                        = xs @ js ''lazy'' @ ys))"
    by (simp add: indexOf_substring)
  with len last show ?thesis by blast
qed

theorem verified_iff_requested_line_not_lazy_witness:
  "\<exists>s'. setBreakPointsRequest [js ''/w/test.rb'' \<mapsto> js ''x = 1\<newline>lazy y\<newline>z''] 1
          (js ''/w/test.rb'') [2]
          (launched True (js ''/w/test.rb'') (js ''x = 1\<newline>lazy y\<newline>z'')) = (s', None) \<and>
     last (effects s') =
       SendResponse 1 (SetBreakpointsBody [\<lparr>bp_id = 1000, verified = False, line = 2\<rparr>]) \<and>
     (\<exists>xs ys. trim (split_lf (js ''x = 1\<newline>lazy y\<newline>z'') ! 1) = xs @ js ''lazy'' @ ys)"
proof -
  let ?text = "js ''x = 1\<newline>lazy y\<newline>z''"
  let ?fs = "[js ''/w/test.rb'' \<mapsto> ?text]"
  let ?s = "launched True (js ''/w/test.rb'') ?text"
  let ?run = "setBreakPointsRequest ?fs 1 (js ''/w/test.rb'') [2] ?s"
  have run: "?run = (fst ?run, None)"
    by (simp add: request_defs string_defs launched_def)
  have content: "?fs (js ''/w/test.rb'') = Some ?text"
    by simp
  have index: "(0::nat) < length [2::int]"
    by simp
  have bound: "convertClientLineToDebugger ?s ([2] ! 0) < int (length (split_lf ?text))"
    by (simp add: convertClientLineToDebugger_def launched_def js_def)
  have sent: "last (effects (fst ?run)) =
       SendResponse 1 (SetBreakpointsBody [\<lparr>bp_id = 1000, verified = False, line = 2\<rparr>])"
    by (simp add: request_defs string_defs launched_def)
  have requested: "nat (convertClientLineToDebugger ?s ([2] ! 0) - 1) = 1"
    by (simp add: convertClientLineToDebugger_def launched_def)
  from verified_iff_requested_line_not_lazy [OF run content index bound] sent requested
  have "\<exists>xs ys. trim (split_lf ?text ! 1) = xs @ js ''lazy'' @ ys"
    by auto
  with run sent show ?thesis by blast
qed

text \<open>
  Claim C3 as stated fails: the flag does not follow the text of the adjusted line. A
  request for the empty line 1 is moved to line 2, whose text \<open>lazy x\<close> contains
  \<open>lazy\<close>, and the breakpoint is returned verified.
\<close>

theorem verified_although_adjusted_line_is_lazy:
  "\<exists>s'. setBreakPointsRequest [js ''/w/test.rb'' \<mapsto> js ''\<newline>lazy x\<newline>z''] 1
          (js ''/w/test.rb'') [1]
          (launched True (js ''/w/test.rb'') (js ''\<newline>lazy x\<newline>z'')) = (s', None) \<and>
     last (effects s') =
       SendResponse 1 (SetBreakpointsBody [\<lparr>bp_id = 1000, verified = True, line = 2\<rparr>]) \<and>
     trim (split_lf (js ''\<newline>lazy x\<newline>z'') ! 1) = js ''lazy x'' \<and>
     indexOf (js ''lazy x'') (js ''lazy'') = 0"
  by (simp add: request_defs string_defs launched_def)

text \<open>
  Claim C4. The command written for a breakpoint names the file \<open>test.rb\<close>, whatever the
  path of the request: here the request is for \<open>/w/app.rb\<close>. The command is written
  before the response is sent.
\<close>

theorem break_command_names_test_rb:
  "effects (fst (setBreakPointsRequest [js ''/w/app.rb'' \<mapsto> js ''x = 1\<newline>y = 2''] 1
      (js ''/w/app.rb'') [1] (launched True (js ''/w/app.rb'') (js ''x = 1\<newline>y = 2'')))) =
   [SocketWrite (js ''break test.rb:1\<newline>''),
    SendResponse 1 (SetBreakpointsBody [\<lparr>bp_id = 1000, verified = True, line = 1\<rparr>])]"
  by (simp add: request_defs string_defs launched_def break_command_def number_to_string_def)

text \<open>
  Claim C8, as the code has it. A request for a path other than \<open>size\<close> and \<open>__proto__\<close>,
  whose file can be read and none of whose lines converts to a debugger line below 1, is
  answered, and the path's stored list is then the newly built list, one breakpoint for
  each requested line, whatever was stored before: the empty list for an empty
  request. A request that raises stores nothing. No request, answered or not, changes
  the stored breakpoints of another path.
\<close>

theorem setBreakPoints_replaces_path_only:
  "(\<forall>p. p \<noteq> path \<longrightarrow>
      breakPoints (fst (setBreakPointsRequest readFileSync response path clientLines s)) p =
      breakPoints s p) \<and>
   (snd (setBreakPointsRequest readFileSync response path clientLines s) \<noteq> None \<longrightarrow>
      breakPoints (fst (setBreakPointsRequest readFileSync response path clientLines s)) =
      breakPoints s) \<and>
   (readFileSync path = Some contents \<and>
    (\<forall>c\<in>set clientLines. 1 \<le> convertClientLineToDebugger s c) \<and>
    path \<noteq> js ''size'' \<and> path \<noteq> js ''__proto__'' \<longrightarrow>
      (\<exists>s' bps.
         setBreakPointsRequest readFileSync response path clientLines s = (s', None) \<and>
         breakPoints s' = (breakPoints s)(path \<mapsto> bps) \<and>
         last (effects s') = SendResponse response (SetBreakpointsBody bps) \<and>
         length bps = length clientLines \<and>
         (\<forall>i<length clientLines. \<exists>l v.
            verify_location (split_lf contents)
              (convertClientLineToDebugger s (clientLines ! i)) = Inr (l, v) \<and>
            bps ! i = \<lparr>bp_id = breakpointId s + int i, verified = v,
                        line = convertDebuggerLineToClient s l\<rparr>) \<and>
         (clientLines = [] \<longrightarrow> breakPoints s' path = Some [])))"
proof (intro conjI allI impI)
  let ?run = "setBreakPointsRequest readFileSync response path clientLines s"
  fix p assume other: "p \<noteq> path"
  show "breakPoints (fst ?run) p = breakPoints s p"
  proof (cases "readFileSync path")
    case None
    then show ?thesis by (simp add: setBreakPointsRequest_def)
  next
    case (Some contents)
    obtain s1 res where loop: "verify_loop (split_lf contents) clientLines [] s = (s1, res)"
      by (metis surj_pair)
    from verify_loop_breakPoints [OF loop] have same: "breakPoints s1 = breakPoints s"
      by simp
    show ?thesis
    proof (cases res)
      case (Inl e)
      with Some loop same show ?thesis by (simp add: setBreakPointsRequest_def)
    next
      case built: (Inr bps)
      show ?thesis
      proof (cases "store_breakPoints path bps s1")
        case (Inl e)
        with Some loop built same show ?thesis by (simp add: setBreakPointsRequest_def)
      next
        case stored: (Inr s2)
        from store_breakPoints_Inr(3) [OF stored other] same
        have "breakPoints s2 p = breakPoints s p" by simp
        with Some loop built stored show ?thesis
          by (simp add: setBreakPointsRequest_def sendResponse_def)
      qed
    qed
  qed
next
  let ?run = "setBreakPointsRequest readFileSync response path clientLines s"
  assume raised: "snd ?run \<noteq> None"
  show "breakPoints (fst ?run) = breakPoints s"
  proof (cases "readFileSync path")
    case None
    then show ?thesis by (simp add: setBreakPointsRequest_def)
  next
    case (Some contents)
    obtain s1 res where loop: "verify_loop (split_lf contents) clientLines [] s = (s1, res)"
      by (metis surj_pair)
    from verify_loop_breakPoints [OF loop] have same: "breakPoints s1 = breakPoints s"
      by simp
    show ?thesis
    proof (cases res)
      case (Inl e)
      with Some loop same show ?thesis by (simp add: setBreakPointsRequest_def)
    next
      case built: (Inr bps)
      show ?thesis
      proof (cases "store_breakPoints path bps s1")
        case (Inl e)
        with Some loop built same show ?thesis by (simp add: setBreakPointsRequest_def)
      next
        case stored: (Inr s2)
        with Some loop built raised show ?thesis
          by (simp add: setBreakPointsRequest_def)
      qed
    qed
  qed
next
  let ?run = "setBreakPointsRequest readFileSync response path clientLines s"
  assume a: "readFileSync path = Some contents \<and>
    (\<forall>c\<in>set clientLines. 1 \<le> convertClientLineToDebugger s c) \<and>
    path \<noteq> js ''size'' \<and> path \<noteq> js ''__proto__''"
  then have "snd ?run = None"
    using setBreakPointsRequest_total [of readFileSync path contents clientLines s response]
    by blast
  then have run: "?run = (fst ?run, None)"
    by (metis prod.collapse)
  from setBreakPointsRequest_None [OF run] a obtain bps s2 where
    len: "length bps = length clientLines"
    and each: "\<forall>i<length clientLines. \<exists>l v.
          verify_location (split_lf contents)
            (convertClientLineToDebugger s (clientLines ! i)) = Inr (l, v) \<and>
          bps ! i = \<lparr>bp_id = breakpointId s + int i, verified = v,
                      line = convertDebuggerLineToClient s l\<rparr>"
    and store: "store_breakPoints path bps
         (s\<lparr>breakpointId := breakpointId s + int (length clientLines),
            effects := effects s @ map (\<lambda>b. SocketWrite (break_command b)) bps\<rparr>) = Inr s2"
    and s': "fst ?run = sendResponse response (SetBreakpointsBody bps) s2"
    and sent: "last (effects (fst ?run)) = SendResponse response (SetBreakpointsBody bps)"
    by auto
  from a store have "s2 =
      (s\<lparr>breakpointId := breakpointId s + int (length clientLines),
         effects := effects s @ map (\<lambda>b. SocketWrite (break_command b)) bps\<rparr>)
      \<lparr>breakPoints := (breakPoints s)(path \<mapsto> bps)\<rparr>"
    by (simp add: store_breakPoints_own)
  with s' have stored: "breakPoints (fst ?run) = (breakPoints s)(path \<mapsto> bps)"
    by (simp add: sendResponse_def)
  have "clientLines = [] \<longrightarrow> breakPoints (fst ?run) path = Some []"
    using stored len by auto
  with run stored sent len each show "\<exists>s' bps.
         ?run = (s', None) \<and>
         breakPoints s' = (breakPoints s)(path \<mapsto> bps) \<and>
         last (effects s') = SendResponse response (SetBreakpointsBody bps) \<and>
         length bps = length clientLines \<and>
         (\<forall>i<length clientLines. \<exists>l v.
            verify_location (split_lf contents)
              (convertClientLineToDebugger s (clientLines ! i)) = Inr (l, v) \<and>
            bps ! i = \<lparr>bp_id = breakpointId s + int i, verified = v,
                        line = convertDebuggerLineToClient s l\<rparr>) \<and>
         (clientLines = [] \<longrightarrow> breakPoints s' path = Some [])"
    by blast
qed

theorem setBreakPoints_replaces_path_only_witness:
  "\<exists>s'. setBreakPointsRequest [js ''/w/a.rb'' \<mapsto> js ''x = 1\<newline>\<newline>y = 2\<newline>z = 3''] 9
       (js ''/w/a.rb'') [2, 1]
       ((launched True (js ''/w/a.rb'') (js ''x = 1\<newline>\<newline>y = 2\<newline>z = 3''))
          \<lparr>breakPoints := [js ''/w/a.rb'' \<mapsto> [\<lparr>bp_id = 998, verified = True, line = 4\<rparr>],
                            js ''/w/b.rb'' \<mapsto> [\<lparr>bp_id = 999, verified = True, line = 4\<rparr>]]\<rparr>)
       = (s', None) \<and>
     breakPoints s' (js ''/w/a.rb'') =
       Some [\<lparr>bp_id = 1000, verified = True, line = 3\<rparr>,
             \<lparr>bp_id = 1001, verified = True, line = 1\<rparr>] \<and>
     breakPoints s' (js ''/w/b.rb'') = Some [\<lparr>bp_id = 999, verified = True, line = 4\<rparr>]"
proof -
  let ?text = "js ''x = 1\<newline>\<newline>y = 2\<newline>z = 3''"
  let ?fs = "[js ''/w/a.rb'' \<mapsto> ?text]"
  let ?s = "(launched True (js ''/w/a.rb'') ?text)
          \<lparr>breakPoints := [js ''/w/a.rb'' \<mapsto> [\<lparr>bp_id = 998, verified = True, line = 4\<rparr>],
                            js ''/w/b.rb'' \<mapsto> [\<lparr>bp_id = 999, verified = True, line = 4\<rparr>]]\<rparr>"
  let ?run = "setBreakPointsRequest ?fs 9 (js ''/w/a.rb'') [2, 1] ?s"
  note all = setBreakPoints_replaces_path_only
    [of "js ''/w/a.rb''" ?fs 9 "[2, 1]" ?s ?text]
  have other: "js ''/w/b.rb'' \<noteq> js ''/w/a.rb''"
    by (simp add: js_def)
  have before: "breakPoints ?s (js ''/w/b.rb'') = Some [\<lparr>bp_id = 999, verified = True, line = 4\<rparr>]"
    using other by (simp add: launched_def)
  have kept: "breakPoints (fst ?run) (js ''/w/b.rb'') =
      Some [\<lparr>bp_id = 999, verified = True, line = 4\<rparr>]"
    using all [THEN conjunct1, THEN spec, THEN mp, OF other] before by simp
  have given: "?fs (js ''/w/a.rb'') = Some ?text \<and>
    (\<forall>c\<in>set [2::int, 1]. 1 \<le> convertClientLineToDebugger ?s c) \<and>
    js ''/w/a.rb'' \<noteq> js ''size'' \<and> js ''/w/a.rb'' \<noteq> js ''__proto__''"
    by (simp add: convertClientLineToDebugger_def launched_def js_def)
  from all [THEN conjunct2, THEN conjunct2, THEN mp, OF given] obtain s' bps where
    run: "?run = (s', None)"
    and stored: "breakPoints s' = (breakPoints ?s)(js ''/w/a.rb'' \<mapsto> bps)"
    and sent: "last (effects s') = SendResponse 9 (SetBreakpointsBody bps)"
    by blast
  have "last (effects (fst ?run)) = SendResponse 9 (SetBreakpointsBody
      [\<lparr>bp_id = 1000, verified = True, line = 3\<rparr>,
       \<lparr>bp_id = 1001, verified = True, line = 1\<rparr>])"
    by (simp add: request_defs string_defs launched_def)
  with run sent have "bps = [\<lparr>bp_id = 1000, verified = True, line = 3\<rparr>,
       \<lparr>bp_id = 1001, verified = True, line = 1\<rparr>]"
    by simp
  with stored have built: "breakPoints s' (js ''/w/a.rb'') =
       Some [\<lparr>bp_id = 1000, verified = True, line = 3\<rparr>,
             \<lparr>bp_id = 1001, verified = True, line = 1\<rparr>]"
    by simp
  from run kept have "breakPoints s' (js ''/w/b.rb'') =
      Some [\<lparr>bp_id = 999, verified = True, line = 4\<rparr>]"
    by simp
  with run built show ?thesis by blast
qed

text \<open>
  Claim C8 as stated fails for a request that raises: nothing is stored, and the list
  stored before stays. Such are a request for a file that cannot be read, here an empty
  request; a request for line 0, whose text is \<open>lines[-1]\<close>; and a request for the path
  \<open>size\<close>, at which the assignment itself raises after the command has been written. A
  request for the path \<open>__proto__\<close> is answered and stores no property.
\<close>

theorem failed_request_keeps_stored_breakpoints:
  "snd (setBreakPointsRequest Map.empty 9 (js ''/w/a.rb'') []
      ((launched True (js ''/w/a.rb'') (js ''x = 1''))
         \<lparr>breakPoints := [js ''/w/a.rb'' \<mapsto> [\<lparr>bp_id = 998, verified = True, line = 1\<rparr>]]\<rparr>))
     = Some FileError \<and>
   breakPoints (fst (setBreakPointsRequest Map.empty 9 (js ''/w/a.rb'') []
      ((launched True (js ''/w/a.rb'') (js ''x = 1''))
         \<lparr>breakPoints := [js ''/w/a.rb'' \<mapsto> [\<lparr>bp_id = 998, verified = True, line = 1\<rparr>]]\<rparr>)))
     (js ''/w/a.rb'') = Some [\<lparr>bp_id = 998, verified = True, line = 1\<rparr>] \<and>
   snd (setBreakPointsRequest [js ''/w/a.rb'' \<mapsto> js ''x = 1''] 9 (js ''/w/a.rb'') [0]
      ((launched True (js ''/w/a.rb'') (js ''x = 1''))
         \<lparr>breakPoints := [js ''/w/a.rb'' \<mapsto> [\<lparr>bp_id = 998, verified = True, line = 1\<rparr>]]\<rparr>))
     = Some TypeError \<and>
   breakPoints (fst (setBreakPointsRequest [js ''/w/a.rb'' \<mapsto> js ''x = 1''] 9 (js ''/w/a.rb'') [0]
      ((launched True (js ''/w/a.rb'') (js ''x = 1''))
         \<lparr>breakPoints := [js ''/w/a.rb'' \<mapsto> [\<lparr>bp_id = 998, verified = True, line = 1\<rparr>]]\<rparr>)))
     (js ''/w/a.rb'') = Some [\<lparr>bp_id = 998, verified = True, line = 1\<rparr>] \<and>
   snd (setBreakPointsRequest [js ''size'' \<mapsto> js ''x = 1\<newline>y = 2''] 9 (js ''size'') [1]
      (launched True (js ''size'') (js ''x = 1\<newline>y = 2''))) = Some TypeError \<and>
   breakPoints (fst (setBreakPointsRequest [js ''size'' \<mapsto> js ''x = 1\<newline>y = 2''] 9 (js ''size'') [1]
      (launched True (js ''size'') (js ''x = 1\<newline>y = 2'')))) (js ''size'') = None \<and>
   effects (fst (setBreakPointsRequest [js ''size'' \<mapsto> js ''x = 1\<newline>y = 2''] 9 (js ''size'') [1]
      (launched True (js ''size'') (js ''x = 1\<newline>y = 2'')))) =
     [SocketWrite (js ''break test.rb:1\<newline>'')] \<and>
   snd (setBreakPointsRequest [js ''__proto__'' \<mapsto> js ''x = 1\<newline>y = 2''] 9 (js ''__proto__'') [1]
      (launched True (js ''__proto__'') (js ''x = 1\<newline>y = 2''))) = None \<and>
   breakPoints (fst (setBreakPointsRequest [js ''__proto__'' \<mapsto> js ''x = 1\<newline>y = 2''] 9
      (js ''__proto__'') [1]
      (launched True (js ''__proto__'') (js ''x = 1\<newline>y = 2'')))) (js ''__proto__'') = None"
  by (simp add: request_defs string_defs launched_def break_command_def number_to_string_def)

text \<open>
  Claim C9. The adjusted line and the verified flag of a breakpoint depend on the text
  of the file and the requested line only. Two answered requests that read the same
  text, made in any two states of a session with the same line convention (the same
  request twice, or one request after the other), return for the same requested line
  the same line and the same flag.
\<close>

theorem same_line_same_adjustment:
  assumes "setBreakPointsRequest readFileSync1 response1 path1 clientLines1 s1 = (s1', None)"
    and "setBreakPointsRequest readFileSync2 response2 path2 clientLines2 s2 = (s2', None)"
    and "readFileSync1 path1 = readFileSync2 path2"
    and "clientLinesStartAt1 s1 = clientLinesStartAt1 s2"
    and "i < length clientLines1" and "j < length clientLines2"
    and "clientLines1 ! i = clientLines2 ! j"
  shows "\<exists>bps1 bps2.
     last (effects s1') = SendResponse response1 (SetBreakpointsBody bps1) \<and>
     last (effects s2') = SendResponse response2 (SetBreakpointsBody bps2) \<and>
     length bps1 = length clientLines1 \<and> length bps2 = length clientLines2 \<and>
     line (bps1 ! i) = line (bps2 ! j) \<and> verified (bps1 ! i) = verified (bps2 ! j)"
proof -
  from setBreakPointsRequest_None [OF assms(1)] obtain contents bps1 where
    rf1: "readFileSync1 path1 = Some contents"
    and len1: "length bps1 = length clientLines1"
    and each1: "\<forall>i<length clientLines1. \<exists>l v.
          verify_location (split_lf contents) (convertClientLineToDebugger s1 (clientLines1 ! i)) = Inr (l, v) \<and>
          bps1 ! i = \<lparr>bp_id = breakpointId s1 + int i, verified = v,
                      line = convertDebuggerLineToClient s1 l\<rparr>"
    and last1: "last (effects s1') = SendResponse response1 (SetBreakpointsBody bps1)"
    by auto
  from setBreakPointsRequest_None [OF assms(2)] rf1 assms(3) obtain bps2 where
    len2: "length bps2 = length clientLines2"
    and each2: "\<forall>i<length clientLines2. \<exists>l v.
          verify_location (split_lf contents) (convertClientLineToDebugger s2 (clientLines2 ! i)) = Inr (l, v) \<and>
          bps2 ! i = \<lparr>bp_id = breakpointId s2 + int i, verified = v,
                      line = convertDebuggerLineToClient s2 l\<rparr>"
    and last2: "last (effects s2') = SendResponse response2 (SetBreakpointsBody bps2)"
    by auto
  have conv: "convertClientLineToDebugger s1 = convertClientLineToDebugger s2"
    "convertDebuggerLineToClient s1 = convertDebuggerLineToClient s2"
    using assms(4) by (auto simp: convertClientLineToDebugger_def convertDebuggerLineToClient_def)
  from each1 assms(5) obtain l1 v1 where
    a: "verify_location (split_lf contents) (convertClientLineToDebugger s1 (clientLines1 ! i)) = Inr (l1, v1)"
      "bps1 ! i = \<lparr>bp_id = breakpointId s1 + int i, verified = v1,
                      line = convertDebuggerLineToClient s1 l1\<rparr>"
    by blast
  from each2 assms(6) obtain l2 v2 where
    b: "verify_location (split_lf contents) (convertClientLineToDebugger s2 (clientLines2 ! j)) = Inr (l2, v2)"
      "bps2 ! j = \<lparr>bp_id = breakpointId s2 + int j, verified = v2,
                      line = convertDebuggerLineToClient s2 l2\<rparr>"
    by blast
  from a(1) b(1) conv assms(7) have "l1 = l2" "v1 = v2" by auto
  with a(2) b(2) conv have
    "line (bps1 ! i) = line (bps2 ! j) \<and> verified (bps1 ! i) = verified (bps2 ! j)"
    by simp
  with len1 len2 last1 last2 show ?thesis by blast
qed

theorem same_line_same_adjustment_witness:
  "snd (setBreakPointsRequest [js ''/w/test.rb'' \<mapsto> js ''x = 1\<newline>\<newline>z = 3''] 1
       (js ''/w/test.rb'') [2, 1]
       (launched True (js ''/w/test.rb'') (js ''x = 1\<newline>\<newline>z = 3''))) = None \<and>
   snd (setBreakPointsRequest [js ''/w/test.rb'' \<mapsto> js ''x = 1\<newline>\<newline>z = 3''] 2
       (js ''/w/test.rb'') [1, 2]
       (fst (setBreakPointsRequest [js ''/w/test.rb'' \<mapsto> js ''x = 1\<newline>\<newline>z = 3''] 1
          (js ''/w/test.rb'') [2, 1]
          (launched True (js ''/w/test.rb'') (js ''x = 1\<newline>\<newline>z = 3''))))) = None \<and>
   (\<exists>bps1 bps2.
     last (effects (fst (setBreakPointsRequest [js ''/w/test.rb'' \<mapsto> js ''x = 1\<newline>\<newline>z = 3''] 1
       (js ''/w/test.rb'') [2, 1]
       (launched True (js ''/w/test.rb'') (js ''x = 1\<newline>\<newline>z = 3''))))) =
       SendResponse 1 (SetBreakpointsBody bps1) \<and>
     last (effects (fst (setBreakPointsRequest [js ''/w/test.rb'' \<mapsto> js ''x = 1\<newline>\<newline>z = 3''] 2
       (js ''/w/test.rb'') [1, 2]
       (fst (setBreakPointsRequest [js ''/w/test.rb'' \<mapsto> js ''x = 1\<newline>\<newline>z = 3''] 1
          (js ''/w/test.rb'') [2, 1]
          (launched True (js ''/w/test.rb'') (js ''x = 1\<newline>\<newline>z = 3''))))))) =
       SendResponse 2 (SetBreakpointsBody bps2) \<and>
     length bps1 = 2 \<and> length bps2 = 2 \<and>
     line (bps1 ! 0) = line (bps2 ! 1) \<and> verified (bps1 ! 0) = verified (bps2 ! 1))"
proof -
  let ?text = "js ''x = 1\<newline>\<newline>z = 3''"
  let ?fs = "[js ''/w/test.rb'' \<mapsto> ?text]"
  let ?s = "launched True (js ''/w/test.rb'') ?text"
  let ?run1 = "setBreakPointsRequest ?fs 1 (js ''/w/test.rb'') [2, 1] ?s"
  let ?run2 = "setBreakPointsRequest ?fs 2 (js ''/w/test.rb'') [1, 2] (fst ?run1)"
  have done1: "snd ?run1 = None"
    by (simp add: request_defs string_defs launched_def)
  have done2: "snd ?run2 = None"
    by (simp add: request_defs string_defs launched_def)
  have run1: "?run1 = (fst ?run1, None)"
    using done1 by (metis prod.collapse)
  have run2: "?run2 = (fst ?run2, None)"
    using done2 by (metis prod.collapse)
  have same_file: "?fs (js ''/w/test.rb'') = ?fs (js ''/w/test.rb'')"
    by simp
  have same_client: "clientLinesStartAt1 ?s = clientLinesStartAt1 (fst ?run1)"
    by (simp add: request_defs string_defs launched_def)
  have i: "(0::nat) < length [2::int, 1]" and j: "(1::nat) < length [1::int, 2]"
    by simp_all
  have same_line: "[2::int, 1] ! 0 = [1, 2] ! 1"
    by simp
  have "\<exists>bps1 bps2.
     last (effects (fst ?run1)) = SendResponse 1 (SetBreakpointsBody bps1) \<and>
     last (effects (fst ?run2)) = SendResponse 2 (SetBreakpointsBody bps2) \<and>
     length bps1 = 2 \<and> length bps2 = 2 \<and>
     line (bps1 ! 0) = line (bps2 ! 1) \<and> verified (bps1 ! 0) = verified (bps2 ! 1)"
    using same_line_same_adjustment [OF run1 run2 same_file same_client i j same_line]
    by (simp add: numeral_2_eq_2)
  with done1 done2 show ?thesis by blast
qed

text \<open>
  Claim C10, as the code has it. A requested line whose number, in the debugger's
  numbering, is at least the number of lines of the file fails the test
  \<open>l < lines.length\<close>: its breakpoint is returned unverified, at the line that the
  conversion to the debugger's numbering and back makes of the requested line. That
  is the requested line itself for a client whose lines start at 1, and for every
  requested line below \<open>2^53\<close> in absolute value. The last line of the file is such a
  line.
\<close>

theorem out_of_bounds_unverified_unadjusted:
  assumes "setBreakPointsRequest readFileSync response path clientLines s = (s', None)"
    and "readFileSync path = Some contents"
    and "i < length clientLines"
    and "int (length (split_lf contents)) \<le> convertClientLineToDebugger s (clientLines ! i)"
  shows "\<exists>bps. last (effects s') = SendResponse response (SetBreakpointsBody bps) \<and>
     length bps = length clientLines \<and>
     \<not> verified (bps ! i) \<and>
     line (bps ! i) =
       convertDebuggerLineToClient s (convertClientLineToDebugger s (clientLines ! i)) \<and>
     (clientLinesStartAt1 s \<or> \<bar>clientLines ! i\<bar> < 2 ^ 53 \<longrightarrow>
        line (bps ! i) = clientLines ! i)"
proof -
  from setBreakPointsRequest_None [OF assms(1)] assms(2) obtain bps where
    len: "length bps = length clientLines"
    and each: "\<forall>i<length clientLines. \<exists>l v.
          verify_location (split_lf contents) (convertClientLineToDebugger s (clientLines ! i)) = Inr (l, v) \<and>
          bps ! i = \<lparr>bp_id = breakpointId s + int i, verified = v,
                      line = convertDebuggerLineToClient s l\<rparr>"
    and last: "last (effects s') = SendResponse response (SetBreakpointsBody bps)"
    by auto
  from each assms(3) obtain l v where
    loc: "verify_location (split_lf contents) (convertClientLineToDebugger s (clientLines ! i)) = Inr (l, v)"
    and bp: "bps ! i = \<lparr>bp_id = breakpointId s + int i, verified = v,
                      line = convertDebuggerLineToClient s l\<rparr>"
    by blast
  from loc assms(4) have "l = convertClientLineToDebugger s (clientLines ! i)" and "\<not> v"
    by (auto simp: verify_location_def)
  with bp have unverified: "\<not> verified (bps ! i)"
    and round_trip: "line (bps ! i) =
       convertDebuggerLineToClient s (convertClientLineToDebugger s (clientLines ! i))"
    by simp_all
  have "line (bps ! i) = clientLines ! i"
    if exact: "clientLinesStartAt1 s \<or> \<bar>clientLines ! i\<bar> < 2 ^ 53"
  proof (cases "clientLinesStartAt1 s")
    case True
    with round_trip show ?thesis
      by (simp add: convertClientLineToDebugger_def convertDebuggerLineToClient_def)
  next
    case False
    with exact have small: "\<bar>clientLines ! i\<bar> < 2 ^ 53" by simp
    then have up: "to_double (clientLines ! i + 1) = clientLines ! i + 1"
      by (intro to_double_exact) simp
    from small have "to_double (clientLines ! i + 1 - 1) = clientLines ! i + 1 - 1"
      by (intro to_double_exact) simp
    with up False round_trip show ?thesis
      by (simp add: convertClientLineToDebugger_def convertDebuggerLineToClient_def)
  qed
  with len last unverified round_trip show ?thesis by blast
qed

theorem out_of_bounds_unverified_unadjusted_witness:
  "snd (setBreakPointsRequest [js ''/w/test.rb'' \<mapsto> js ''x = 1\<newline>\<newline>z = 3''] 1
          (js ''/w/test.rb'') [1, 2]
          (launched False (js ''/w/test.rb'') (js ''x = 1\<newline>\<newline>z = 3''))) = None \<and>
   length (split_lf (js ''x = 1\<newline>\<newline>z = 3'')) = 3 \<and>
   convertClientLineToDebugger (launched False (js ''/w/test.rb'') (js ''x = 1\<newline>\<newline>z = 3'')) 2 = 3 \<and>
   (\<exists>bps. last (effects (fst (setBreakPointsRequest
              [js ''/w/test.rb'' \<mapsto> js ''x = 1\<newline>\<newline>z = 3''] 1
              (js ''/w/test.rb'') [1, 2]
              (launched False (js ''/w/test.rb'') (js ''x = 1\<newline>\<newline>z = 3''))))) =
             SendResponse 1 (SetBreakpointsBody bps) \<and>
      \<not> verified (bps ! 1) \<and> line (bps ! 1) = 2)"
proof -
  let ?text = "js ''x = 1\<newline>\<newline>z = 3''"
  let ?fs = "[js ''/w/test.rb'' \<mapsto> ?text]"
  let ?s = "launched False (js ''/w/test.rb'') ?text"
  let ?run = "setBreakPointsRequest ?fs 1 (js ''/w/test.rb'') [1, 2] ?s"
  have three: "convertClientLineToDebugger ?s 2 = 3" "convertClientLineToDebugger ?s 1 = 2"
    by (simp_all add: convertClientLineToDebugger_def launched_def to_double_exact)
  have answered: "snd ?run = None"
    by (rule setBreakPointsRequest_total [where contents = ?text])
      (simp_all add: three, simp add: js_def)
  then have run: "?run = (fst ?run, None)"
    by (metis prod.collapse)
  have content: "?fs (js ''/w/test.rb'') = Some ?text"
    by simp
  have index: "(1::nat) < length [1::int, 2]"
    by simp
  have lines: "length (split_lf ?text) = 3"
    by (simp add: js_def)
  have bound: "int (length (split_lf ?text)) \<le> convertClientLineToDebugger ?s ([1, 2] ! 1)"
    using lines three by simp
  have small: "clientLinesStartAt1 ?s \<or> \<bar>[1::int, 2] ! 1\<bar> < 2 ^ 53"
    by simp
  from out_of_bounds_unverified_unadjusted [OF run content index bound] small
  have "\<exists>bps. last (effects (fst ?run)) = SendResponse 1 (SetBreakpointsBody bps) \<and>
      \<not> verified (bps ! 1) \<and> line (bps ! 1) = 2"
    by auto
  with answered lines three show ?thesis by blast
qed

text \<open>
  Claim C10 as stated fails where the conversion is not exact. For a client whose lines
  start at 0, the requested line \<open>2^53\<close> becomes \<open>2^53 + 1\<close>, which no double is; the sum
  is \<open>2^53\<close>, and the breakpoint is returned at \<open>2^53 - 1\<close>.
\<close>

theorem line_beyond_exact_doubles_is_moved:
  "snd (setBreakPointsRequest [js ''/w/test.rb'' \<mapsto> js ''x = 1''] 1
          (js ''/w/test.rb'') [9007199254740992]
          (launched False (js ''/w/test.rb'') (js ''x = 1''))) = None \<and>
   int (length (split_lf (js ''x = 1''))) \<le>
     convertClientLineToDebugger (launched False (js ''/w/test.rb'') (js ''x = 1''))
       9007199254740992 \<and>
   last (effects (fst (setBreakPointsRequest [js ''/w/test.rb'' \<mapsto> js ''x = 1''] 1
          (js ''/w/test.rb'') [9007199254740992]
          (launched False (js ''/w/test.rb'') (js ''x = 1''))))) =
     SendResponse 1 (SetBreakpointsBody
       [\<lparr>bp_id = 1000, verified = False, line = 9007199254740991\<rparr>])"
proof -
  have down: "to_double 9007199254740991 = 9007199254740991"
    by (rule to_double_exact) simp
  show ?thesis
    by (simp add: request_defs string_defs launched_def to_double_above down)
qed

section \<open>Reassembly of documents\<close>

lemmas handler_defs =
  onData_def re_enclosed_def sendEvent_def stackFrameLoadedPromiseResolve_def
  variableLoadedPromiseResolve_def resolve_promise_def launched_def pending_def





















text \<open>
  The buffer and the resolver calls of a run depend on the buffer and the resolver calls
  it starts from, and a self-closed event changes neither.
\<close>

lemma resolver_calls_append:
  "resolver_calls (xs @ ys) = resolver_calls xs @ resolver_calls ys"
  by (induction xs rule: resolver_calls.induct) simp_all

lemma onData_event:
  assumes "self_closed_event c"
  shows "buffer (onData c s) = buffer s"
    and "onData c s =
      sendEvent (StoppedEvent
        (if re_enclosed (js ''<breakpoint '') (js ''/>'') c then js ''breakpoint'' else js ''step'')
        THREAD_ID) s"
    and "resolver_calls (effects (onData c s)) = resolver_calls (effects s)"
  using assms
  by (auto simp: self_closed_event_def onData_def sendEvent_def resolver_calls_append)

lemma onData_same_documents:
  assumes "buffer s = buffer t"
    and "resolver_calls (effects s) = resolver_calls (effects t)"
  shows "buffer (onData c s) = buffer (onData c t) \<and>
     resolver_calls (effects (onData c s)) = resolver_calls (effects (onData c t))"
  using assms
  by (simp add: onData_def sendEvent_def stackFrameLoadedPromiseResolve_def
      variableLoadedPromiseResolve_def resolver_calls_append Let_def)

lemma onData_all_same_documents:
  "buffer s = buffer t \<Longrightarrow> resolver_calls (effects s) = resolver_calls (effects t) \<Longrightarrow>
     buffer (onData_all cs s) = buffer (onData_all cs t) \<and>
     resolver_calls (effects (onData_all cs s)) = resolver_calls (effects (onData_all cs t))"
proof (induction cs arbitrary: s t)
  case Nil
  then show ?case by simp
next
  case (Cons c cs)
  from onData_same_documents [OF Cons.prems, of c] Cons.IH [of "onData c s" "onData c t"]
  show ?case by simp
qed

lemma onData_all_without_events:
  "buffer (onData_all chunks s) =
     buffer (onData_all (filter (\<lambda>c. \<not> self_closed_event c) chunks) s) \<and>
   resolver_calls (effects (onData_all chunks s)) =
     resolver_calls (effects (onData_all (filter (\<lambda>c. \<not> self_closed_event c) chunks) s))"
proof (induction chunks arbitrary: s)
  case Nil
  show ?case by simp
next
  case (Cons c cs)
  show ?case
  proof (cases "self_closed_event c")
    case True
    from onData_event(1,3) [OF True, of s]
    have "buffer (onData_all (filter (\<lambda>c. \<not> self_closed_event c) cs) (onData c s)) =
            buffer (onData_all (filter (\<lambda>c. \<not> self_closed_event c) cs) s) \<and>
          resolver_calls (effects (onData_all (filter (\<lambda>c. \<not> self_closed_event c) cs) (onData c s))) =
            resolver_calls (effects (onData_all (filter (\<lambda>c. \<not> self_closed_event c) cs) s))"
      by (intro onData_all_same_documents)
    with Cons [of "onData c s"] True show ?thesis by simp
  next
    case False
    with Cons [of "onData c s"] show ?thesis by simp
  qed
qed

text \<open>
  Claim C5. A chunk that is, whole, a self-closed \<open>breakpoint\<close> or \<open>suspended\<close> element
  is answered at once with a stopped event (reason \<open>breakpoint\<close> or \<open>step\<close>) and changes
  nothing else: the buffer is as it was. In any stream of chunks, the buffer and the
  documents handed to the resolvers are those of the stream without its self-closed
  events: no event reaches a document.
\<close>

theorem self_closed_events_never_buffered:
  "(self_closed_event chunk \<longrightarrow>
      buffer (onData chunk s) = buffer s \<and>
      onData chunk s =
        sendEvent (StoppedEvent
          (if re_enclosed (js ''<breakpoint '') (js ''/>'') chunk
           then js ''breakpoint'' else js ''step'')
          THREAD_ID) s) \<and>
   buffer (onData_all chunks s) =
     buffer (onData_all (filter (\<lambda>c. \<not> self_closed_event c) chunks) s) \<and>
   resolver_calls (effects (onData_all chunks s)) =
     resolver_calls (effects (onData_all (filter (\<lambda>c. \<not> self_closed_event c) chunks) s))"
  using onData_event(1,2) [of chunk s] onData_all_without_events [of chunks s] by blast

theorem self_closed_events_never_buffered_witness:
  "self_closed_event (js ''<breakpoint file='/w/test.rb' line='3' threadId='1'/>'') \<and>
   effects (onData (js ''<breakpoint file='/w/test.rb' line='3' threadId='1'/>'')
     ((launched True (js ''/w/test.rb'') (js ''a = 1''))\<lparr>buffer := js ''<frames>''\<rparr>)) =
     [SendEvent (StoppedEvent (js ''breakpoint'') THREAD_ID)] \<and>
   buffer (onData (js ''<breakpoint file='/w/test.rb' line='3' threadId='1'/>'')
     ((launched True (js ''/w/test.rb'') (js ''a = 1''))\<lparr>buffer := js ''<frames>''\<rparr>)) =
     js ''<frames>'' \<and>
   resolver_calls (effects (onData_all
     [js ''<frames>'', js ''<breakpoint file='/w/test.rb' line='3' threadId='1'/>'',
      js ''<frame no='1' file='/w/test.rb' line='3'/>'',
      js ''<suspended file='/w/test.rb' line='4' threadId='1' frames='1'/>'', js ''</frames>'']
     (launched True (js ''/w/test.rb'') (js ''a = 1'')))) =
   [(Frames, js ''<frames><frame no='1' file='/w/test.rb' line='3'/></frames>'')]"
proof -
  let ?event = "js ''<breakpoint file='/w/test.rb' line='3' threadId='1'/>''"
  let ?s = "launched True (js ''/w/test.rb'') (js ''a = 1'')"
  let ?chunks = "[js ''<frames>'', ?event, js ''<frame no='1' file='/w/test.rb' line='3'/>'',
      js ''<suspended file='/w/test.rb' line='4' threadId='1' frames='1'/>'', js ''</frames>'']"
  have event: "self_closed_event ?event"
    by (simp add: self_closed_event_def re_enclosed_def string_defs)
  have suspended: "self_closed_event (js ''<suspended file='/w/test.rb' line='4' threadId='1' frames='1'/>'')"
    by (simp add: self_closed_event_def re_enclosed_def string_defs)
  have others: "\<not> self_closed_event (js ''<frames>'')"
    "\<not> self_closed_event (js ''<frame no='1' file='/w/test.rb' line='3'/>'')"
    "\<not> self_closed_event (js ''</frames>'')"
    by (simp_all add: self_closed_event_def re_enclosed_def string_defs)
  have filtered: "filter (\<lambda>c. \<not> self_closed_event c) ?chunks =
      [js ''<frames>'', js ''<frame no='1' file='/w/test.rb' line='3'/>'', js ''</frames>'']"
    using event suspended others by simp
  have plain: "resolver_calls (effects (onData_all
      [js ''<frames>'', js ''<frame no='1' file='/w/test.rb' line='3'/>'', js ''</frames>''] ?s)) =
      [(Frames, js ''<frames><frame no='1' file='/w/test.rb' line='3'/></frames>'')]"
    by (simp add: handler_defs string_defs)
  note step = self_closed_events_never_buffered
    [of ?event "?s\<lparr>buffer := js ''<frames>''\<rparr>" ?chunks, THEN conjunct1, THEN mp, OF event]
  note run = self_closed_events_never_buffered
    [of ?event ?s ?chunks, THEN conjunct2, THEN conjunct2]
  have is_breakpoint: "re_enclosed (js ''<breakpoint '') (js ''/>'') ?event"
    by (simp add: re_enclosed_def string_defs)
  have dispatched: "effects (onData ?event (?s\<lparr>buffer := js ''<frames>''\<rparr>)) =
     [SendEvent (StoppedEvent (js ''breakpoint'') THREAD_ID)]"
    using step [THEN conjunct2] is_breakpoint by (simp add: sendEvent_def launched_def)
  have kept: "buffer (onData ?event (?s\<lparr>buffer := js ''<frames>''\<rparr>)) = js ''<frames>''"
    using step [THEN conjunct1] by simp
  have calls: "resolver_calls (effects (onData_all ?chunks ?s)) =
     [(Frames, js ''<frames><frame no='1' file='/w/test.rb' line='3'/></frames>'')]"
    using run filtered plain by simp
  from event dispatched kept calls show ?thesis by blast
qed

section \<open>Waiting for the backend\<close>

text \<open>
  Claim C7. In the trace of \<open>stackTraceRequest\<close> the new promise and the callback
  attached to it come before the \<open>where\<close> line, and \<open>where\<close> is written in a state whose
  \<open>stackFrameLoaded\<close> is that promise, pending and waited on. \<open>variablesRequest\<close> does the
  same with \<open>variableLoaded\<close> and \<open>var local\<close>.
\<close>

theorem waiter_registered_before_write:
  "effects (stackTraceRequest response s) =
     effects s @ [NewPromise Frames, PromiseThen Frames (StackTraceReaction response),
                  SocketWrite (js ''where'' @ [10])] \<and>
   stackTraceRequest response s =
     socket_write (js ''where'' @ [10])
       (stackFrameLoaded_then (StackTraceReaction response) (new_stackFrameLoaded s)) \<and>
   stackFrameLoaded (stackFrameLoaded_then (StackTraceReaction response) (new_stackFrameLoaded s)) =
     \<lparr>resolved_with = None, reactions = [StackTraceReaction response]\<rparr> \<and>
   waited_on (stackFrameLoaded
     (stackFrameLoaded_then (StackTraceReaction response) (new_stackFrameLoaded s))) \<and>
   effects (variablesRequest response' reference s) =
     effects s @ [NewPromise Variables, PromiseThen Variables (VariablesReaction response' reference),
                  SocketWrite (js ''var local'' @ [10])] \<and>
   variablesRequest response' reference s =
     socket_write (js ''var local'' @ [10])
       (variableLoaded_then (VariablesReaction response' reference) (new_variableLoaded s)) \<and>
   variableLoaded (variableLoaded_then (VariablesReaction response' reference) (new_variableLoaded s)) =
     \<lparr>resolved_with = None, reactions = [VariablesReaction response' reference]\<rparr> \<and>
   waited_on (variableLoaded
     (variableLoaded_then (VariablesReaction response' reference) (new_variableLoaded s)))"
  by (simp add: stackTraceRequest_def variablesRequest_def stackFrameLoaded_then_def
      variableLoaded_then_def new_stackFrameLoaded_def new_variableLoaded_def pending_def
      waited_on_def socket_write_def)

theorem waiter_registered_before_write_witness:
  "effects (stackTraceRequest 5 (launched True (js ''/w/test.rb'') (js ''a = 1''))) =
     [NewPromise Frames, PromiseThen Frames (StackTraceReaction 5),
      SocketWrite (js ''where\<newline>'')] \<and>
   waited_on (stackFrameLoaded (stackTraceRequest 5 (launched True (js ''/w/test.rb'') (js ''a = 1'')))) \<and>
   effects (variablesRequest 6 1 (launched True (js ''/w/test.rb'') (js ''a = 1''))) =
     [NewPromise Variables, PromiseThen Variables (VariablesReaction 6 1),
      SocketWrite (js ''var local\<newline>'')] \<and>
   waited_on (variableLoaded (variablesRequest 6 1 (launched True (js ''/w/test.rb'') (js ''a = 1''))))"
proof -
  let ?s = "launched True (js ''/w/test.rb'') (js ''a = 1'')"
  note w = waiter_registered_before_write [of 5 ?s 6 1]
  note trace1 = w [THEN conjunct1]
  note write1 = w [THEN conjunct2, THEN conjunct1]
  note waited1 = w [THEN conjunct2, THEN conjunct2, THEN conjunct2, THEN conjunct1]
  note rest = w [THEN conjunct2, THEN conjunct2, THEN conjunct2, THEN conjunct2]
  note trace2 = rest [THEN conjunct1]
  note write2 = rest [THEN conjunct2, THEN conjunct1]
  note waited2 = rest [THEN conjunct2, THEN conjunct2, THEN conjunct2]
  have start: "effects ?s = []"
    by (simp add: launched_def)
  have lit: "js ''where'' @ [10] = js ''where\<newline>''"
    "js ''var local'' @ [10] = js ''var local\<newline>''"
    by (simp_all add: js_def)
  have frames: "effects (stackTraceRequest 5 ?s) =
     [NewPromise Frames, PromiseThen Frames (StackTraceReaction 5), SocketWrite (js ''where\<newline>'')]"
    using trace1 start lit by simp
  have variables: "effects (variablesRequest 6 1 ?s) =
     [NewPromise Variables, PromiseThen Variables (VariablesReaction 6 1),
      SocketWrite (js ''var local\<newline>'')]"
    using trace2 start lit by simp
  have waiter1: "waited_on (stackFrameLoaded (stackTraceRequest 5 ?s))"
    using waited1 by (simp add: write1 socket_write_def)
  have waiter2: "waited_on (variableLoaded (variablesRequest 6 1 ?s))"
    using waited2 by (simp add: write2 socket_write_def)
  from frames variables waiter1 waiter2 show ?thesis by blast
qed

text \<open>
  Claim C6, as the code has it. For a frames document whose first three children are
  frames of \<open>user.rb\<close>, \<open>user.rb\<close> and \<open>ruby-debug-ide.rb\<close>, and in which each of the
  first two frames has a line attribute whose number, converted to the client's line
  numbering, is an integer between 1 and the number of cached source lines, the
  callback answers with exactly two frames: the loop ends at the third child, and
  neither it nor any later child is translated.
\<close>

theorem stack_trace_stops_at_internal_frame:
  assumes "documentElement xml =
      Some (Element (js ''frames'') root_attributes
        (Element n1 a1 c1 # Element n2 a2 c2 # Element n3 a3 c3 # later))"
    and "map_of a1 (js ''file'') = Some file1" and "basename file1 = js ''user.rb''"
    and "map_of a2 (js ''file'') = Some file2" and "basename file2 = js ''user.rb''"
    and "map_of a3 (js ''file'') = Some file3" and "basename file3 = js ''ruby-debug-ide.rb''"
    and "map_of a1 (js ''line'') = Some line1" and "toNumber line1 = Some m1"
    and "map_of a2 (js ''line'') = Some line2" and "toNumber line2 = Some m2"
    and "1 \<le> convertDebuggerLineToClient s m1"
    and "convertDebuggerLineToClient s m1 \<le> int (length (sourceLines s))"
    and "1 \<le> convertDebuggerLineToClient s m2"
    and "convertDebuggerLineToClient s m2 \<le> int (length (sourceLines s))"
  shows "stackTraceCallback toNumber response xml s =
     (sendResponse response (StackTraceBody
        [\<lparr>frame_id = 0,
          frame_name = trim (sourceLines s ! nat (convertDebuggerLineToClient s m1 - 1)),
          source_name = basename (sourceFile s), source_path = sourceFile s,
          frame_line = convertDebuggerLineToClient s m1, frame_column = 0\<rparr>,
         \<lparr>frame_id = 1,
          frame_name = trim (sourceLines s ! nat (convertDebuggerLineToClient s m2 - 1)),
          source_name = basename (sourceFile s), source_path = sourceFile s,
          frame_line = convertDebuggerLineToClient s m2, frame_column = 0\<rparr>]) s, None)"
proof -
  have user: "js ''user.rb'' \<noteq> js ''ruby-debug-ide.rb''" "js ''user.rb'' \<noteq> js ''rdebug-ide''"
    by (simp_all add: js_def)
  show ?thesis
    using assms user by (simp add: stackTraceCallback_def Let_def)
qed

theorem stack_trace_stops_at_internal_frame_witness:
  "stackTraceCallback (map_of [(js ''2'', 2), (js ''3'', 3), (js ''86'', 86)]) 4
     \<lparr>documentElement = Some (Element (js ''frames'') []
        [Element (js ''frame'')
           [(js ''no'', js ''1''), (js ''file'', js ''/w/user.rb''), (js ''line'', js ''2'')] [],
         Element (js ''frame'')
           [(js ''no'', js ''2''), (js ''file'', js ''/w/user.rb''), (js ''line'', js ''3'')] [],
         Element (js ''frame'')
           [(js ''no'', js ''3''), (js ''file'', js ''/gems/ruby-debug-ide.rb''), (js ''line'', js ''86'')] []])\<rparr>
     (launched True (js ''/w/user.rb'') (js ''def f\<newline>  g(1)\<newline>f\<newline>''))
   = (sendResponse 4 (StackTraceBody
        [\<lparr>frame_id = 0, frame_name = js ''g(1)'', source_name = js ''user.rb'',
          source_path = js ''/w/user.rb'', frame_line = 2, frame_column = 0\<rparr>,
         \<lparr>frame_id = 1, frame_name = js ''f'', source_name = js ''user.rb'',
          source_path = js ''/w/user.rb'', frame_line = 3, frame_column = 0\<rparr>])
        (launched True (js ''/w/user.rb'') (js ''def f\<newline>  g(1)\<newline>f\<newline>'')), None)"
proof -
  let ?s = "launched True (js ''/w/user.rb'') (js ''def f\<newline>  g(1)\<newline>f\<newline>'')"
  let ?toNumber = "map_of [(js ''2'', 2::int), (js ''3'', 3), (js ''86'', 86)]"
  let ?a1 = "[(js ''no'', js ''1''), (js ''file'', js ''/w/user.rb''), (js ''line'', js ''2'')]"
  let ?a2 = "[(js ''no'', js ''2''), (js ''file'', js ''/w/user.rb''), (js ''line'', js ''3'')]"
  let ?a3 = "[(js ''no'', js ''3''), (js ''file'', js ''/gems/ruby-debug-ide.rb''), (js ''line'', js ''86'')]"
  let ?xml = "\<lparr>documentElement = Some (Element (js ''frames'') []
        [Element (js ''frame'') ?a1 [], Element (js ''frame'') ?a2 [], Element (js ''frame'') ?a3 []])\<rparr>"
  have doc: "documentElement ?xml = Some (Element (js ''frames'') []
        (Element (js ''frame'') ?a1 [] # Element (js ''frame'') ?a2 [] # Element (js ''frame'') ?a3 [] # []))"
    by simp
  have f1: "map_of ?a1 (js ''file'') = Some (js ''/w/user.rb'')"
    and f2: "map_of ?a2 (js ''file'') = Some (js ''/w/user.rb'')"
    and f3: "map_of ?a3 (js ''file'') = Some (js ''/gems/ruby-debug-ide.rb'')"
    and l1: "map_of ?a1 (js ''line'') = Some (js ''2'')"
    and l2: "map_of ?a2 (js ''line'') = Some (js ''3'')"
    by (simp_all add: js_def)
  have b1: "basename (js ''/w/user.rb'') = js ''user.rb''"
    and b3: "basename (js ''/gems/ruby-debug-ide.rb'') = js ''ruby-debug-ide.rb''"
    by (simp_all add: basename_def js_def)
  have d1: "?toNumber (js ''2'') = Some 2" and d2: "?toNumber (js ''3'') = Some 3"
    by (simp_all add: js_def)
  have r1: "1 \<le> convertDebuggerLineToClient ?s 2"
    "convertDebuggerLineToClient ?s 2 \<le> int (length (sourceLines ?s))"
    and r2: "1 \<le> convertDebuggerLineToClient ?s 3"
    "convertDebuggerLineToClient ?s 3 \<le> int (length (sourceLines ?s))"
    by (simp_all add: convertDebuggerLineToClient_def launched_def js_def)
  from stack_trace_stops_at_internal_frame
    [where toNumber = ?toNumber, OF doc f1 b1 f2 b1 f3 b3 l1 d1 l2 d2 r1 r2, of 4]
  show ?thesis
    by (simp add: convertDebuggerLineToClient_def launched_def basename_def sendResponse_def
        string_defs)
qed

text \<open>
  Claim C6 as stated fails for a frame whose line is not a line of the cached source:
  \<open>this._sourceLines[6]\<close> is \<open>undefined\<close> in a file of two lines, \<open>.trim()\<close> raises, and no
  frame and no response is produced. For a client whose lines start at 0 the same
  happens to a frame on line 1 of the cached file: the converted line is 0, and
  \<open>this._sourceLines[-1]\<close> is \<open>undefined\<close>. (The conversion of the attribute to a number
  takes \<open>1\<close>, \<open>2\<close>, \<open>7\<close>, \<open>9\<close> and \<open>86\<close> to these numbers.)
\<close>

theorem frame_line_beyond_cached_source:
  "snd (stackTraceCallback (map_of [(js ''7'', 7), (js ''9'', 9), (js ''86'', 86)]) 4
     \<lparr>documentElement = Some (Element (js ''frames'') []
        [Element (js ''frame'')
           [(js ''no'', js ''1''), (js ''file'', js ''/w/lib/user.rb''), (js ''line'', js ''7'')] [],
         Element (js ''frame'')
           [(js ''no'', js ''2''), (js ''file'', js ''/w/lib/user.rb''), (js ''line'', js ''9'')] [],
         Element (js ''frame'')
           [(js ''no'', js ''3''), (js ''file'', js ''/gems/ruby-debug-ide.rb''), (js ''line'', js ''86'')] []])\<rparr>
     (launched True (js ''/w/main.rb'') (js ''require 'lib/user'\<newline>run''))) = Some TypeError \<and>
   effects (fst (stackTraceCallback (map_of [(js ''7'', 7), (js ''9'', 9), (js ''86'', 86)]) 4
     \<lparr>documentElement = Some (Element (js ''frames'') []
        [Element (js ''frame'')
           [(js ''no'', js ''1''), (js ''file'', js ''/w/lib/user.rb''), (js ''line'', js ''7'')] [],
         Element (js ''frame'')
           [(js ''no'', js ''2''), (js ''file'', js ''/w/lib/user.rb''), (js ''line'', js ''9'')] [],
         Element (js ''frame'')
           [(js ''no'', js ''3''), (js ''file'', js ''/gems/ruby-debug-ide.rb''), (js ''line'', js ''86'')] []])\<rparr>
     (launched True (js ''/w/main.rb'') (js ''require 'lib/user'\<newline>run'')))) = [] \<and>
   length (sourceLines (launched False (js ''/w/user.rb'') (js ''def f\<newline>  g(1)\<newline>f\<newline>''))) = 4 \<and>
   snd (stackTraceCallback (map_of [(js ''1'', 1), (js ''2'', 2), (js ''86'', 86)]) 4
     \<lparr>documentElement = Some (Element (js ''frames'') []
        [Element (js ''frame'')
           [(js ''no'', js ''1''), (js ''file'', js ''/w/user.rb''), (js ''line'', js ''1'')] [],
         Element (js ''frame'')
           [(js ''no'', js ''2''), (js ''file'', js ''/w/user.rb''), (js ''line'', js ''2'')] [],
         Element (js ''frame'')
           [(js ''no'', js ''3''), (js ''file'', js ''/gems/ruby-debug-ide.rb''), (js ''line'', js ''86'')] []])\<rparr>
     (launched False (js ''/w/user.rb'') (js ''def f\<newline>  g(1)\<newline>f\<newline>''))) = Some TypeError \<and>
   effects (fst (stackTraceCallback (map_of [(js ''1'', 1), (js ''2'', 2), (js ''86'', 86)]) 4
     \<lparr>documentElement = Some (Element (js ''frames'') []
        [Element (js ''frame'')
           [(js ''no'', js ''1''), (js ''file'', js ''/w/user.rb''), (js ''line'', js ''1'')] [],
         Element (js ''frame'')
           [(js ''no'', js ''2''), (js ''file'', js ''/w/user.rb''), (js ''line'', js ''2'')] [],
         Element (js ''frame'')
           [(js ''no'', js ''3''), (js ''file'', js ''/gems/ruby-debug-ide.rb''), (js ''line'', js ''86'')] []])\<rparr>
     (launched False (js ''/w/user.rb'') (js ''def f\<newline>  g(1)\<newline>f\<newline>'')))) = [] \<and>
   basename (js ''/w/lib/user.rb'') = js ''user.rb'' \<and>
   basename (js ''/w/user.rb'') = js ''user.rb'' \<and>
   basename (js ''/gems/ruby-debug-ide.rb'') = js ''ruby-debug-ide.rb''"
  by (simp add: stackTraceCallback_def basename_def convertDebuggerLineToClient_def
      to_double_exact launched_def string_defs js_def)

end
